theory Spec2Isabelle
  imports Complex_Main
begin

section \<open>Healthcare resource allocation: the model of \<open>resource_allocation_model.py\<close>\<close>

text \<open>
  The simulation has one coordinator, a list of hospitals and a list of patients, all
  reachable from the environment object (\<open>self.model\<close>). Every method is embedded as a
  function on the whole environment: it takes the environment and returns the updated
  one, so that what a method leaves alone is a statement to prove and not a consequence
  of a narrow signature. Objects are referred to by their position in the environment's
  lists (\<open>self.hospitals\<close>, \<open>self.patients\<close>), which is their identity. A Python
  reference always points to an object; an index beyond the list has no counterpart in
  the source, and the loops of the model only produce indices of the list they run over.
  A method that raises leaves the state as it was at the \<open>raise\<close>: every fallible
  function returns the result or the error together with the state reached.

  Numbers: Python mixes \<open>int\<close> and \<open>float\<close> here (\<open>initial_resources\<close> is an int, the
  factors \<open>1.1\<close>, \<open>0.4\<close>, ... are floats, \<open>/\<close> is true division). Resource levels and
  scores are \<open>real\<close> numbers, demands are \<open>int\<close>. The functions of the source are first
  embedded over exact arithmetic; this decides every property that rests on
  comparisons, on the order of effects and on the monotonicity of the arithmetic. The
  ranking of the bids and the rebalancing are embedded a second time with the rounding
  of double arithmetic, since there the rounding decides which bids tie and what the
  balances sum to. Division by zero raises \<open>ZeroDivisionError\<close> in Python, for ints and
  floats alike, and is a branch of the model wherever the source divides.

  Logging calls (\<open>logger.info\<close>, \<open>logging.info\<close>), the grid, the scheduler and the data
  collector have no effect on the state modelled here and are left out; so is the
  wall-clock \<open>timestamp\<close> of a message.
\<close>

subsection \<open>Data\<close>

datatype py_error = ZeroDivisionError | ValueError | IndexError

datatype party = Agent nat | BROADCAST

datatype content =
    MedicalNeedsContent int string
  | AdmissionBidContent nat real string
  | UnavailableContent nat
  | AllocationContent nat int real
  | ResultContent bool nat
  | AllocatedContent int nat
  | TransferContent real nat nat

record message =
  sender :: nat
  recipient :: party
  content :: content
  message_type :: string

record message_manager =
  message_log :: "message list"

record policy =
  specialization_weight :: real
  resource_efficiency_weight :: real

record strategy =
  patient_severity :: real
  hospital_capacity :: real
  resource_efficiency :: real

record agent =
  unique_id :: nat

record coordinator = agent +
  global_strategy :: strategy
  message_manager :: message_manager

record hospital = agent +
  specialization :: string
  initial_resources :: real
  current_resources :: real
  admission_policy :: policy
  hospital_received_messages :: "message list"

record patient = agent +
  severity :: string
  medical_needs :: int
  unmet_needs :: int
  patient_received_messages :: "message list"

record env =
  hospitals :: "hospital list"
  patients :: "patient list"
  resource_coordinator :: coordinator
  global_message_manager :: message_manager
  total_unmet_needs :: int
  resource_allocation_efficiency :: real

subsection \<open>MessageManager\<close>

definition MessageManager :: message_manager where
  "MessageManager = \<lparr>message_log = []\<rparr>"

definition send_message :: "message \<Rightarrow> message_manager \<Rightarrow> message_manager" where
  "send_message msg mm = mm\<lparr>message_log := message_log mm @ [msg]\<rparr>"

definition get_messages_for_agent :: "party \<Rightarrow> message_manager \<Rightarrow> message list" where
  "get_messages_for_agent a mm = filter (\<lambda>msg. recipient msg = a) (message_log mm)"

text \<open>\<open>self.model.resource_coordinator.message_manager.send_message(msg)\<close>, the one
  path by which every agent sends.\<close>

definition coordinator_send :: "message \<Rightarrow> env \<Rightarrow> env" where
  "coordinator_send msg e =
     e\<lparr>resource_coordinator :=
         (resource_coordinator e)\<lparr>message_manager :=
            send_message msg (message_manager (resource_coordinator e))\<rparr>\<rparr>"

definition coordinator_log :: "env \<Rightarrow> message list" where
  "coordinator_log e = message_log (message_manager (resource_coordinator e))"

subsection \<open>HospitalAgent\<close>

definition develop_admission_policy :: policy where
  "develop_admission_policy =
     \<lparr>specialization_weight = 0.4, resource_efficiency_weight = 0.6\<rparr>"

definition HospitalAgent :: "nat \<Rightarrow> string \<Rightarrow> real \<Rightarrow> hospital" where
  "HospitalAgent uid spec init =
     \<lparr>unique_id = uid, specialization = spec, initial_resources = init,
      current_resources = init, admission_policy = develop_admission_policy,
      hospital_received_messages = []\<rparr>"

definition matches_specialization :: "hospital \<Rightarrow> patient \<Rightarrow> bool" where
  "matches_specialization h p = True"

definition calculate_admission_score :: "hospital \<Rightarrow> patient \<Rightarrow> real \<Rightarrow> py_error + real" where
  "calculate_admission_score h p required_resources =
     (let pol = admission_policy h;
          specialization_match = (if matches_specialization h p then 1.0 else 0.3)
      in if current_resources h = 0 then Inl ZeroDivisionError
         else
           let resource_efficiency = 1 - required_resources / current_resources h
           in Inr (specialization_weight pol * specialization_match
                   + resource_efficiency_weight pol * resource_efficiency))"

definition evaluate_patient_admission ::
  "nat \<Rightarrow> patient \<Rightarrow> real \<Rightarrow> env \<Rightarrow> (py_error + real option) \<times> env" where
  "evaluate_patient_admission i p required_resources e =
     (let h = hospitals e ! i;
          bid_message = \<lparr>sender = unique_id h,
                         recipient = Agent (unique_id (resource_coordinator e)),
                         content = AdmissionBidContent (unique_id p) required_resources
                                     (specialization h),
                         message_type = ''ADMISSION_BID''\<rparr>;
          e1 = coordinator_send bid_message e
      in if current_resources h < required_resources then (Inr None, e1)
         else
           case calculate_admission_score h p required_resources of
             Inl err \<Rightarrow> (Inl err, e1)
           | Inr match_score \<Rightarrow>
               (Inr (if match_score > 0.5 then Some match_score else None), e1))"

definition HospitalAgent_allocate_resources ::
  "nat \<Rightarrow> patient \<Rightarrow> real \<Rightarrow> env \<Rightarrow> bool \<times> env" where
  "HospitalAgent_allocate_resources i p allocation_score e =
     (let h = hospitals e ! i;
          required_resources = real_of_int (medical_needs p)
      in if current_resources h \<ge> required_resources then
           let e1 = e\<lparr>hospitals := (hospitals e)
                        [i := h\<lparr>current_resources :=
                                  current_resources h - required_resources\<rparr>]\<rparr>;
               allocation_message = \<lparr>sender = unique_id h,
                                     recipient = Agent (unique_id p),
                                     content = AllocatedContent (medical_needs p) (unique_id h),
                                     message_type = ''RESOURCE_ALLOCATED''\<rparr>
           in (True, coordinator_send allocation_message e1)
         else (False, e))"

definition process_resources :: "nat \<Rightarrow> env \<Rightarrow> env" where
  "process_resources i e =
     (let h = hospitals e ! i;
          max_growth_factor = 1.5;
          replenishment_rate = 1.1
      in e\<lparr>hospitals := (hospitals e)
            [i := h\<lparr>current_resources :=
                      min (current_resources h * replenishment_rate)
                          (initial_resources h * max_growth_factor)\<rparr>]\<rparr>)"

subsection \<open>Library functions: \<open>random.randint\<close> and \<open>sorted\<close>\<close>

text \<open>
  \<open>random.randint(a, b)\<close> returns an integer \<open>N\<close> with \<open>a \<le> N \<le> b\<close>, both ends
  included, and raises \<open>ValueError\<close> on an empty range. The generator's state is not
  modelled: the draw is a function of an entropy value \<open>r\<close> supplied by the caller,
  and every value of the range is the image of some \<open>r\<close>.
\<close>

definition randint :: "int \<Rightarrow> int \<Rightarrow> nat \<Rightarrow> py_error + int" where
  "randint a b r =
     (if b < a then Inl ValueError else Inr (a + int (r mod nat (b - a + 1))))"

text \<open>
  \<open>sorted(xs, key=f, reverse=flag)\<close> is a stable sort on the keys. With
  \<open>reverse=True\<close> CPython reverses the list, sorts it ascending and stably, and
  reverses the result, so elements with equal keys keep their original order in
  both directions. The keys are computed first, one call per element in list order
  (\<open>decorate\<close>); a key function that raises ends the sort.
\<close>

definition sorted_py :: "('a \<Rightarrow> real) \<Rightarrow> bool \<Rightarrow> 'a list \<Rightarrow> 'a list" where
  "sorted_py f reverse xs =
     (if reverse then rev (sort_key f (rev xs)) else sort_key f xs)"

fun decorate :: "('a \<Rightarrow> py_error + real) \<Rightarrow> 'a list \<Rightarrow> py_error + (real \<times> 'a) list" where
  "decorate f [] = Inr []"
| "decorate f (x # xs) =
     (case f x of
        Inl err \<Rightarrow> Inl err
      | Inr k \<Rightarrow> (case decorate f xs of
                    Inl err \<Rightarrow> Inl err
                  | Inr kxs \<Rightarrow> Inr ((k, x) # kxs)))"

subsection \<open>ResourceCoordinatorAgent\<close>

definition develop_allocation_strategy :: strategy where
  "develop_allocation_strategy =
     \<lparr>patient_severity = 0.4, hospital_capacity = 0.3, resource_efficiency = 0.3\<rparr>"

definition ResourceCoordinatorAgent :: "nat \<Rightarrow> coordinator" where
  "ResourceCoordinatorAgent uid =
     \<lparr>unique_id = uid, global_strategy = develop_allocation_strategy,
      message_manager = MessageManager\<rparr>"

definition severity_score :: "patient \<Rightarrow> real" where
  "severity_score p =
     (if severity p = ''low'' then 0.2
      else if severity p = ''medium'' then 0.5
      else if severity p = ''high'' then 1.0
      else 0.5)"

definition capacity_score :: "hospital \<Rightarrow> py_error + real" where
  "capacity_score h =
     (if initial_resources h = 0 then Inl ZeroDivisionError
      else Inr (min (current_resources h / initial_resources h) 1.0))"

definition evaluate_bid :: "coordinator \<Rightarrow> hospital \<Rightarrow> real \<Rightarrow> patient \<Rightarrow> py_error + real" where
  "evaluate_bid c h bid_value p =
     (let strat = global_strategy c
      in case capacity_score h of
           Inl err \<Rightarrow> Inl err
         | Inr cap \<Rightarrow>
             Inr (patient_severity strat * severity_score p
                  + hospital_capacity strat * cap
                  + resource_efficiency strat * bid_value))"

text \<open>The key of \<open>sorted\<close> in \<open>allocate_resources\<close>:
  \<open>lambda x: self.evaluate_bid(x[0], x[1], patient)\<close>.\<close>

definition bid_key :: "env \<Rightarrow> patient \<Rightarrow> nat \<times> real \<Rightarrow> py_error + real" where
  "bid_key e p x = evaluate_bid (resource_coordinator e) (hospitals e ! fst x) (snd x) p"

definition sort_bids :: "patient \<Rightarrow> (nat \<times> real) list \<Rightarrow> env \<Rightarrow> py_error + (nat \<times> real) list" where
  "sort_bids p hospital_bids e =
     (case decorate (bid_key e p) hospital_bids of
        Inl err \<Rightarrow> Inl err
      | Inr keyed \<Rightarrow> Inr (map snd (sorted_py fst True keyed)))"

definition ResourceCoordinatorAgent_allocate_resources ::
  "patient \<Rightarrow> (nat \<times> real) list \<Rightarrow> env \<Rightarrow> (py_error + bool option) \<times> env" where
  "ResourceCoordinatorAgent_allocate_resources p hospital_bids e =
     (let self = resource_coordinator e
      in if hospital_bids = [] then
           (Inr None,
            coordinator_send \<lparr>sender = unique_id self, recipient = BROADCAST,
                              content = UnavailableContent (unique_id p),
                              message_type = ''RESOURCE_UNAVAILABLE''\<rparr> e)
         else
           case sort_bids p hospital_bids e of
             Inl err \<Rightarrow> (Inl err, e)
           | Inr [] \<Rightarrow> (Inl IndexError, e)
           | Inr ((best_hospital, bid_value) # _) \<Rightarrow>
               let allocation_message =
                     \<lparr>sender = unique_id self,
                      recipient = Agent (unique_id (hospitals e ! best_hospital)),
                      content = AllocationContent (unique_id p) (medical_needs p) bid_value,
                      message_type = ''RESOURCE_ALLOCATION''\<rparr>;
                   e1 = coordinator_send allocation_message e;
                   (allocation_success, e2) =
                     HospitalAgent_allocate_resources best_hospital p bid_value e1;
                   result_message =
                     \<lparr>sender = unique_id self,
                      recipient = Agent (unique_id p),
                      content = ResultContent allocation_success
                                  (unique_id (hospitals e2 ! best_hospital)),
                      message_type = ''ALLOCATION_RESULT''\<rparr>
               in (Inr (Some allocation_success), coordinator_send result_message e2))"

text \<open>One iteration of the body of the nested loop of \<open>coordinate_global_resources\<close>.
  The balances are read from the live state; the source is debited before the target
  is credited.\<close>

definition transfer :: "nat \<Rightarrow> nat \<Rightarrow> env \<Rightarrow> env" where
  "transfer source target e =
     (let s = hospitals e ! source;
          t = hospitals e ! target;
          transfer_amount = min (current_resources s * 0.1)
                                (initial_resources t * 0.2 - current_resources t)
      in if transfer_amount > 0 then
           let transfer_message =
                 \<lparr>sender = unique_id s, recipient = Agent (unique_id t),
                  content = TransferContent transfer_amount (unique_id s) (unique_id t),
                  message_type = ''RESOURCE_TRANSFER''\<rparr>;
               e1 = coordinator_send transfer_message e;
               hs1 = (hospitals e1)
                       [source := (hospitals e1 ! source)
                          \<lparr>current_resources :=
                             current_resources (hospitals e1 ! source) - transfer_amount\<rparr>];
               hs2 = hs1
                       [target := (hs1 ! target)
                          \<lparr>current_resources :=
                             current_resources (hs1 ! target) + transfer_amount\<rparr>]
           in e1\<lparr>hospitals := hs2\<rparr>
         else e)"

fun transfer_targets :: "nat \<Rightarrow> nat list \<Rightarrow> env \<Rightarrow> env" where
  "transfer_targets source [] e = e"
| "transfer_targets source (target # low) e =
     transfer_targets source low (transfer source target e)"

fun transfer_sources :: "nat list \<Rightarrow> nat list \<Rightarrow> env \<Rightarrow> env" where
  "transfer_sources [] low e = e"
| "transfer_sources (source # high) low e =
     transfer_sources high low (transfer_targets source low e)"

definition high_capacity_hospitals :: "env \<Rightarrow> nat list" where
  "high_capacity_hospitals e =
     sorted_py (\<lambda>i. current_resources (hospitals e ! i)) True
       (filter (\<lambda>i. current_resources (hospitals e ! i)
                      > initial_resources (hospitals e ! i) * 1.2)
               [0..<length (hospitals e)])"

definition low_capacity_hospitals :: "env \<Rightarrow> nat list" where
  "low_capacity_hospitals e =
     sorted_py (\<lambda>i. current_resources (hospitals e ! i)) False
       (filter (\<lambda>i. current_resources (hospitals e ! i)
                      < initial_resources (hospitals e ! i) * 0.8)
               [0..<length (hospitals e)])"

definition coordinate_global_resources :: "env \<Rightarrow> env" where
  "coordinate_global_resources e =
     transfer_sources (high_capacity_hospitals e) (low_capacity_hospitals e) e"

subsection \<open>ResourceAllocationEnvironment: negotiation\<close>

fun collect_bids ::
  "nat list \<Rightarrow> patient \<Rightarrow> real \<Rightarrow> (nat \<times> real) list \<Rightarrow> env
     \<Rightarrow> (py_error + (nat \<times> real) list) \<times> env" where
  "collect_bids [] p required_resources bids e = (Inr bids, e)"
| "collect_bids (i # rest) p required_resources bids e =
     (case evaluate_patient_admission i p required_resources e of
        (Inl err, e1) \<Rightarrow> (Inl err, e1)
      | (Inr None, e1) \<Rightarrow> collect_bids rest p required_resources bids e1
      | (Inr (Some bid), e1) \<Rightarrow>
          collect_bids rest p required_resources (bids @ [(i, bid)]) e1)"

definition negotiate_resource_allocation ::
  "patient \<Rightarrow> real \<Rightarrow> env \<Rightarrow> (py_error + bool option) \<times> env" where
  "negotiate_resource_allocation p required_resources e =
     (case collect_bids [0..<length (hospitals e)] p required_resources [] e of
        (Inl err, e1) \<Rightarrow> (Inl err, e1)
      | (Inr bids, e1) \<Rightarrow> ResourceCoordinatorAgent_allocate_resources p bids e1)"

subsection \<open>PatientAgent\<close>

definition PatientAgent :: "nat \<Rightarrow> string \<Rightarrow> patient" where
  "PatientAgent uid sev =
     \<lparr>unique_id = uid, severity = sev, medical_needs = 0, unmet_needs = 0,
      patient_received_messages = []\<rparr>"

definition severity_resource_ranges :: "string \<Rightarrow> int \<times> int" where
  "severity_resource_ranges sev =
     (if sev = ''low'' then (5, 20)
      else if sev = ''medium'' then (20, 100)
      else if sev = ''high'' then (100, 200)
      else (10, 50))"

definition generate_medical_needs :: "nat \<Rightarrow> nat \<Rightarrow> env \<Rightarrow> (py_error + unit) \<times> env" where
  "generate_medical_needs j r e =
     (let (min_need, max_need) = severity_resource_ranges (severity (patients e ! j))
      in case randint min_need max_need r of
           Inl err \<Rightarrow> (Inl err, e)
         | Inr n \<Rightarrow>
             let e1 = e\<lparr>patients := (patients e)[j := (patients e ! j)\<lparr>medical_needs := n\<rparr>]\<rparr>;
                 self = patients e1 ! j;
                 needs_message =
                   \<lparr>sender = unique_id self,
                    recipient = Agent (unique_id (resource_coordinator e1)),
                    content = MedicalNeedsContent (medical_needs self) (severity self),
                    message_type = ''MEDICAL_NEEDS''\<rparr>;
                 e2 = coordinator_send needs_message e1
             in case negotiate_resource_allocation self (real_of_int (medical_needs self)) e2 of
                  (Inl err, e3) \<Rightarrow> (Inl err, e3)
                | (Inr allocation_result, e3) \<Rightarrow>
                    (Inr (),
                     e3\<lparr>patients := (patients e3)
                          [j := (patients e3 ! j)
                             \<lparr>unmet_needs :=
                                (if allocation_result = Some True then 0
                                 else medical_needs (patients e3 ! j))\<rparr>]\<rparr>))"

subsection \<open>ResourceAllocationEnvironment: construction, step, metrics\<close>

definition get_hospital_specialization :: "nat \<Rightarrow> string" where
  "get_hospital_specialization r =
     [''emergency'', ''intensive_care'', ''general'', ''pediatric'', ''surgical''] ! (r mod 5)"

definition random_severity :: "nat \<Rightarrow> string" where
  "random_severity r = [''low'', ''medium'', ''high''] ! (r mod 3)"

text \<open>\<open>next_id()\<close> counts from 1: the coordinator is created first, then the
  hospitals, then the patients. \<open>spec_rnd\<close> and \<open>sev_rnd\<close> supply the entropy of the
  two \<open>random.choice\<close> calls.\<close>

definition ResourceAllocationEnvironment ::
  "nat \<Rightarrow> nat \<Rightarrow> real \<Rightarrow> (nat \<Rightarrow> nat) \<Rightarrow> (nat \<Rightarrow> nat) \<Rightarrow> env" where
  "ResourceAllocationEnvironment num_hospitals num_patients init spec_rnd sev_rnd =
     \<lparr>hospitals = map (\<lambda>k. HospitalAgent (2 + k) (get_hospital_specialization (spec_rnd k)) init)
                      [0..<num_hospitals],
      patients = map (\<lambda>k. PatientAgent (2 + num_hospitals + k) (random_severity (sev_rnd k)))
                     [0..<num_patients],
      resource_coordinator = ResourceCoordinatorAgent 1,
      global_message_manager = MessageManager,
      total_unmet_needs = 0,
      resource_allocation_efficiency = 0\<rparr>"

definition update_performance_metrics :: "env \<Rightarrow> (py_error + unit) \<times> env" where
  "update_performance_metrics e =
     (let unmet = sum_list (map unmet_needs (patients e));
          total_resources = sum_list (map current_resources (hospitals e));
          e1 = e\<lparr>total_unmet_needs := unmet\<rparr>
      in if total_resources + 1 = 0 then (Inl ZeroDivisionError, e1)
         else (Inr (),
               e1\<lparr>resource_allocation_efficiency :=
                    (total_resources - real_of_int unmet) / (total_resources + 1)\<rparr>))"

fun generate_all :: "nat list \<Rightarrow> (nat \<Rightarrow> nat) \<Rightarrow> env \<Rightarrow> (py_error + unit) \<times> env" where
  "generate_all [] rnd e = (Inr (), e)"
| "generate_all (j # rest) rnd e =
     (case generate_medical_needs j (rnd j) e of
        (Inl err, e1) \<Rightarrow> (Inl err, e1)
      | (Inr _, e1) \<Rightarrow> generate_all rest rnd e1)"

fun process_all :: "nat list \<Rightarrow> env \<Rightarrow> env" where
  "process_all [] e = e"
| "process_all (i # rest) e = process_all rest (process_resources i e)"

text \<open>\<open>step\<close>: the agents define no \<open>step\<close> method of their own, so
  \<open>self.schedule.step()\<close> changes nothing modelled here; \<open>rnd j\<close> is the entropy of
  patient \<open>j\<close>'s draw in this step.\<close>

definition step :: "(nat \<Rightarrow> nat) \<Rightarrow> env \<Rightarrow> (py_error + unit) \<times> env" where
  "step rnd e =
     (case generate_all [0..<length (patients e)] rnd e of
        (Inl err, e1) \<Rightarrow> (Inl err, e1)
      | (Inr _, e1) \<Rightarrow>
          let e2 = process_all [0..<length (hospitals e1)] e1;
              e3 = coordinate_global_resources e2
          in update_performance_metrics e3)"

fun run_steps :: "nat \<Rightarrow> (nat \<Rightarrow> nat \<Rightarrow> nat) \<Rightarrow> env \<Rightarrow> (py_error + unit) \<times> env" where
  "run_steps 0 rnd e = (Inr (), e)"
| "run_steps (Suc n) rnd e =
     (case step (rnd 0) e of
        (Inl err, e1) \<Rightarrow> (Inl err, e1)
      | (Inr _, e1) \<Rightarrow> run_steps n (\<lambda>k. rnd (Suc k)) e1)"

definition run_healthcare_simulation ::
  "nat \<Rightarrow> nat \<Rightarrow> nat \<Rightarrow> (nat \<Rightarrow> nat) \<Rightarrow> (nat \<Rightarrow> nat) \<Rightarrow> (nat \<Rightarrow> nat \<Rightarrow> nat)
     \<Rightarrow> (py_error + unit) \<times> env" where
  "run_healthcare_simulation num_hospitals num_patients simulation_steps spec_rnd sev_rnd rnd =
     run_steps simulation_steps rnd
       (ResourceAllocationEnvironment num_hospitals num_patients 1000 spec_rnd sev_rnd)"

subsection \<open>Double-precision arithmetic\<close>

text \<open>
  Python's \<open>float\<close> is the IEEE 754 double: every literal and the result of every
  \<open>+\<close>, \<open>-\<close>, \<open>*\<close> and \<open>/\<close> is the exact value rounded to the nearest number with a
  53-bit significand, ties going to the even significand. \<open>round_double\<close> is that
  rounding on the reals: \<open>ilog2\<close> is the binary exponent of a positive number, kept at
  -1022 or above for the subnormal numbers, and the result is the nearest multiple of
  the spacing at that exponent. Results beyond the largest double, which Python turns
  into \<open>inf\<close>, are outside it. An integer below \<open>2 ^ 53\<close> and a double are both left
  unchanged by the rounding, so an operation on such values is rounded the same way
  whether Python holds them as \<open>int\<close> or \<open>float\<close>.
\<close>

definition round_half_even :: "real \<Rightarrow> int" where
  "round_half_even x =
     (let f = \<lfloor>x\<rfloor>; d = x - of_int f
      in if d < 1 / 2 then f else if 1 / 2 < d then f + 1 else if even f then f else f + 1)"

function ilog2 :: "real \<Rightarrow> int" where
  "ilog2 x =
     (if x \<le> 0 then 0
      else if 2 \<le> x then ilog2 (x / 2) + 1
      else if x < 1 then ilog2 (2 * x) - 1
      else 0)"
  by pat_completeness auto
termination
proof (relation "measure (\<lambda>x. nat \<lceil>x\<rceil> + 2 * nat \<lceil>1 / x\<rceil>)")
  show "wf (measure (\<lambda>x::real. nat \<lceil>x\<rceil> + 2 * nat \<lceil>1 / x\<rceil>))" by simp
next
  fix x :: real
  assume x: "\<not> x \<le> 0" "2 \<le> x"
  have a: "\<lceil>1 / x\<rceil> = 1" using x by (intro ceiling_unique) (simp_all add: field_simps)
  have b: "\<lceil>1 / (x / 2)\<rceil> = 1" using x by (intro ceiling_unique) (simp_all add: field_simps)
  have "real_of_int \<lceil>x / 2\<rceil> < x / 2 + 1" by linarith
  also have "\<dots> \<le> x" using x by simp
  also have "\<dots> \<le> real_of_int \<lceil>x\<rceil>" by linarith
  finally have c: "\<lceil>x / 2\<rceil> < \<lceil>x\<rceil>" by simp
  have "0 < \<lceil>x / 2\<rceil>" using x by (simp add: ceiling_less_iff)
  with a b c show "(x / 2, x) \<in> measure (\<lambda>x. nat \<lceil>x\<rceil> + 2 * nat \<lceil>1 / x\<rceil>)"
    by simp
next
  fix x :: real
  assume x: "\<not> x \<le> 0" "\<not> 2 \<le> x" "x < 1"
  have one: "\<lceil>x\<rceil> = 1" using x by (intro ceiling_unique) simp_all
  show "(2 * x, x) \<in> measure (\<lambda>x. nat \<lceil>x\<rceil> + 2 * nat \<lceil>1 / x\<rceil>)"
  proof (cases "x < 1 / 2")
    case True
    have two: "\<lceil>2 * x\<rceil> = 1" using x True by (intro ceiling_unique) simp_all
    have y: "2 < 1 / x" using x True by (simp add: field_simps)
    have "real_of_int \<lceil>1 / (2 * x)\<rceil> < 1 / (2 * x) + 1" by linarith
    also have "\<dots> = (1 / x) / 2 + 1" by simp
    also have "\<dots> < 1 / x" using y by simp
    also have "\<dots> \<le> real_of_int \<lceil>1 / x\<rceil>" by linarith
    finally have c: "\<lceil>1 / (2 * x)\<rceil> < \<lceil>1 / x\<rceil>" by simp
    have "0 < \<lceil>1 / (2 * x)\<rceil>" using x by (simp add: ceiling_less_iff)
    with one two c show ?thesis by simp
  next
    case False
    have "\<lceil>2 * x\<rceil> \<le> 2" using x by (simp add: ceiling_le_iff)
    then have two: "nat \<lceil>2 * x\<rceil> \<le> 2" by linarith
    have a: "\<lceil>1 / (2 * x)\<rceil> = 1"
      using x False by (intro ceiling_unique) (simp_all add: field_simps)
    have b: "\<lceil>1 / x\<rceil> = 2"
      using x False by (intro ceiling_unique) (simp_all add: field_simps)
    have "nat \<lceil>2 * x\<rceil> + 2 * nat \<lceil>1 / (2 * x)\<rceil> < nat \<lceil>x\<rceil> + 2 * nat \<lceil>1 / x\<rceil>"
      unfolding one a b using two by linarith
    then show ?thesis by (simp only: in_measure)
  qed
qed

declare ilog2.simps [simp del]

definition round_double :: "real \<Rightarrow> real" where
  "round_double x =
     (if x = 0 then 0
      else
        let e = max (ilog2 \<bar>x\<bar>) (- 1022);
            q = (if 52 \<le> e then 2 ^ nat (e - 52) else 1 / 2 ^ nat (52 - e))
        in real_of_int (round_half_even (x / q)) * q)"

text \<open>
  Where rounding decides a property (the rank that the bids are sorted by, and the
  balances after a transfer) the functions of the source are embedded a second time,
  with the rounding \<open>rnd\<close> of the arithmetic as a parameter applied to every literal and
  to the result of every operation, in the order in which Python evaluates them. With
  \<open>round_double\<close> for \<open>rnd\<close> they compute what the program computes; with the identity
  they are the exact functions above. Comparisons and \<open>min\<close> are exact on doubles.
\<close>

subsection \<open>ResourceCoordinatorAgent: ranking in double arithmetic\<close>

definition severity_score_fl :: "(real \<Rightarrow> real) \<Rightarrow> patient \<Rightarrow> real" where
  "severity_score_fl rnd p =
     (if severity p = ''low'' then rnd 0.2
      else if severity p = ''medium'' then rnd 0.5
      else if severity p = ''high'' then rnd 1.0
      else rnd 0.5)"

definition capacity_score_fl :: "(real \<Rightarrow> real) \<Rightarrow> hospital \<Rightarrow> py_error + real" where
  "capacity_score_fl rnd h =
     (if initial_resources h = 0 then Inl ZeroDivisionError
      else Inr (min (rnd (current_resources h / initial_resources h)) (rnd 1.0)))"

definition evaluate_bid_fl ::
  "(real \<Rightarrow> real) \<Rightarrow> coordinator \<Rightarrow> hospital \<Rightarrow> real \<Rightarrow> patient \<Rightarrow> py_error + real" where
  "evaluate_bid_fl rnd c h bid_value p =
     (let strat = global_strategy c
      in case capacity_score_fl rnd h of
           Inl err \<Rightarrow> Inl err
         | Inr cap \<Rightarrow>
             Inr (rnd (rnd (rnd (rnd (patient_severity strat) * severity_score_fl rnd p)
                            + rnd (rnd (hospital_capacity strat) * cap))
                       + rnd (rnd (resource_efficiency strat) * bid_value))))"

definition bid_key_fl :: "(real \<Rightarrow> real) \<Rightarrow> env \<Rightarrow> patient \<Rightarrow> nat \<times> real \<Rightarrow> py_error + real" where
  "bid_key_fl rnd e p x =
     evaluate_bid_fl rnd (resource_coordinator e) (hospitals e ! fst x) (snd x) p"

definition sort_bids_fl ::
  "(real \<Rightarrow> real) \<Rightarrow> patient \<Rightarrow> (nat \<times> real) list \<Rightarrow> env \<Rightarrow> py_error + (nat \<times> real) list" where
  "sort_bids_fl rnd p hospital_bids e =
     (case decorate (bid_key_fl rnd e p) hospital_bids of
        Inl err \<Rightarrow> Inl err
      | Inr keyed \<Rightarrow> Inr (map snd (sorted_py fst True keyed)))"

definition HospitalAgent_allocate_resources_fl ::
  "(real \<Rightarrow> real) \<Rightarrow> nat \<Rightarrow> patient \<Rightarrow> real \<Rightarrow> env \<Rightarrow> bool \<times> env" where
  "HospitalAgent_allocate_resources_fl rnd i p allocation_score e =
     (let h = hospitals e ! i;
          required_resources = real_of_int (medical_needs p)
      in if current_resources h \<ge> required_resources then
           let e1 = e\<lparr>hospitals := (hospitals e)
                        [i := h\<lparr>current_resources :=
                                  rnd (current_resources h - required_resources)\<rparr>]\<rparr>;
               allocation_message = \<lparr>sender = unique_id h,
                                     recipient = Agent (unique_id p),
                                     content = AllocatedContent (medical_needs p) (unique_id h),
                                     message_type = ''RESOURCE_ALLOCATED''\<rparr>
           in (True, coordinator_send allocation_message e1)
         else (False, e))"

definition ResourceCoordinatorAgent_allocate_resources_fl ::
  "(real \<Rightarrow> real) \<Rightarrow> patient \<Rightarrow> (nat \<times> real) list \<Rightarrow> env
     \<Rightarrow> (py_error + bool option) \<times> env" where
  "ResourceCoordinatorAgent_allocate_resources_fl rnd p hospital_bids e =
     (let self = resource_coordinator e
      in if hospital_bids = [] then
           (Inr None,
            coordinator_send \<lparr>sender = unique_id self, recipient = BROADCAST,
                              content = UnavailableContent (unique_id p),
                              message_type = ''RESOURCE_UNAVAILABLE''\<rparr> e)
         else
           case sort_bids_fl rnd p hospital_bids e of
             Inl err \<Rightarrow> (Inl err, e)
           | Inr [] \<Rightarrow> (Inl IndexError, e)
           | Inr ((best_hospital, bid_value) # _) \<Rightarrow>
               let allocation_message =
                     \<lparr>sender = unique_id self,
                      recipient = Agent (unique_id (hospitals e ! best_hospital)),
                      content = AllocationContent (unique_id p) (medical_needs p) bid_value,
                      message_type = ''RESOURCE_ALLOCATION''\<rparr>;
                   e1 = coordinator_send allocation_message e;
                   (allocation_success, e2) =
                     HospitalAgent_allocate_resources_fl rnd best_hospital p bid_value e1;
                   result_message =
                     \<lparr>sender = unique_id self,
                      recipient = Agent (unique_id p),
                      content = ResultContent allocation_success
                                  (unique_id (hospitals e2 ! best_hospital)),
                      message_type = ''ALLOCATION_RESULT''\<rparr>
               in (Inr (Some allocation_success), coordinator_send result_message e2))"

text \<open>The loop of \<open>negotiate_resource_allocation\<close> over any function that gives the
  quote of hospital \<open>i\<close>: the exact \<open>evaluate_patient_admission\<close> or one that computes the
  score in double arithmetic.\<close>

fun collect_bids_with ::
  "(nat \<Rightarrow> env \<Rightarrow> (py_error + real option) \<times> env) \<Rightarrow> nat list \<Rightarrow> (nat \<times> real) list \<Rightarrow> env
     \<Rightarrow> (py_error + (nat \<times> real) list) \<times> env" where
  "collect_bids_with quote [] bids e = (Inr bids, e)"
| "collect_bids_with quote (i # rest) bids e =
     (case quote i e of
        (Inl err, e1) \<Rightarrow> (Inl err, e1)
      | (Inr None, e1) \<Rightarrow> collect_bids_with quote rest bids e1
      | (Inr (Some bid), e1) \<Rightarrow> collect_bids_with quote rest (bids @ [(i, bid)]) e1)"

subsection \<open>ResourceCoordinatorAgent: rebalancing in double arithmetic\<close>

definition transfer_fl :: "(real \<Rightarrow> real) \<Rightarrow> nat \<Rightarrow> nat \<Rightarrow> env \<Rightarrow> env" where
  "transfer_fl rnd source target e =
     (let s = hospitals e ! source;
          t = hospitals e ! target;
          transfer_amount = min (rnd (current_resources s * rnd 0.1))
                                (rnd (rnd (initial_resources t * rnd 0.2) - current_resources t))
      in if transfer_amount > 0 then
           let transfer_message =
                 \<lparr>sender = unique_id s, recipient = Agent (unique_id t),
                  content = TransferContent transfer_amount (unique_id s) (unique_id t),
                  message_type = ''RESOURCE_TRANSFER''\<rparr>;
               e1 = coordinator_send transfer_message e;
               hs1 = (hospitals e1)
                       [source := (hospitals e1 ! source)
                          \<lparr>current_resources :=
                             rnd (current_resources (hospitals e1 ! source) - transfer_amount)\<rparr>];
               hs2 = hs1
                       [target := (hs1 ! target)
                          \<lparr>current_resources :=
                             rnd (current_resources (hs1 ! target) + transfer_amount)\<rparr>]
           in e1\<lparr>hospitals := hs2\<rparr>
         else e)"

fun transfer_targets_fl :: "(real \<Rightarrow> real) \<Rightarrow> nat \<Rightarrow> nat list \<Rightarrow> env \<Rightarrow> env" where
  "transfer_targets_fl rnd source [] e = e"
| "transfer_targets_fl rnd source (target # low) e =
     transfer_targets_fl rnd source low (transfer_fl rnd source target e)"

fun transfer_sources_fl :: "(real \<Rightarrow> real) \<Rightarrow> nat list \<Rightarrow> nat list \<Rightarrow> env \<Rightarrow> env" where
  "transfer_sources_fl rnd [] low e = e"
| "transfer_sources_fl rnd (source # high) low e =
     transfer_sources_fl rnd high low (transfer_targets_fl rnd source low e)"

definition high_capacity_hospitals_fl :: "(real \<Rightarrow> real) \<Rightarrow> env \<Rightarrow> nat list" where
  "high_capacity_hospitals_fl rnd e =
     sorted_py (\<lambda>i. current_resources (hospitals e ! i)) True
       (filter (\<lambda>i. current_resources (hospitals e ! i)
                      > rnd (initial_resources (hospitals e ! i) * rnd 1.2))
               [0..<length (hospitals e)])"

definition low_capacity_hospitals_fl :: "(real \<Rightarrow> real) \<Rightarrow> env \<Rightarrow> nat list" where
  "low_capacity_hospitals_fl rnd e =
     sorted_py (\<lambda>i. current_resources (hospitals e ! i)) False
       (filter (\<lambda>i. current_resources (hospitals e ! i)
                      < rnd (initial_resources (hospitals e ! i) * rnd 0.8))
               [0..<length (hospitals e)])"

definition coordinate_global_resources_fl :: "(real \<Rightarrow> real) \<Rightarrow> env \<Rightarrow> env" where
  "coordinate_global_resources_fl rnd e =
     transfer_sources_fl rnd (high_capacity_hospitals_fl rnd e)
       (low_capacity_hospitals_fl rnd e) e"

subsection \<open>Concrete states used in the examples\<close>

text \<open>A hospital as constructed and then brought to a given balance, a patient as
  constructed and then given a demand, and an environment around given agents with a
  fresh coordinator and fresh logs.\<close>

definition hospital_with :: "nat \<Rightarrow> real \<Rightarrow> real \<Rightarrow> hospital" where
  "hospital_with uid init cur = (HospitalAgent uid ''general'' init)\<lparr>current_resources := cur\<rparr>"

definition patient_with :: "nat \<Rightarrow> string \<Rightarrow> int \<Rightarrow> patient" where
  "patient_with uid sev n = (PatientAgent uid sev)\<lparr>medical_needs := n\<rparr>"

definition env_of :: "hospital list \<Rightarrow> patient list \<Rightarrow> env" where
  "env_of hs ps =
     \<lparr>hospitals = hs, patients = ps,
      resource_coordinator = ResourceCoordinatorAgent 1,
      global_message_manager = MessageManager,
      total_unmet_needs = 0, resource_allocation_efficiency = 0\<rparr>"

text \<open>Two hospitals of capacity 1000 with the balances 905.0 and 905.0000000000001 (the
  next double), and two hospitals of capacity 1000 with the balances 1201.3 (the
  nearest double) and 0.\<close>

definition tie_env :: env where
  "tie_env = env_of [hospital_with 2 1000 905,
                     hospital_with 3 1000 (7960464185098241 / 8796093022208)] []"

definition drift_env :: env where
  "drift_env = env_of [hospital_with 2 1000 (5283373273789235 / 4398046511104),
                       hospital_with 3 1000 0] []"

text \<open>The total system resource: the sum of all hospital balances.\<close>

definition total_balance :: "env \<Rightarrow> real" where
  "total_balance e = sum_list (map current_resources (hospitals e))"

text \<open>The invariant of the balances: no hospital has a negative capacity or a negative
  balance. The capacity is part of it because the replenishment cap is a multiple of
  the capacity; a hospital is constructed with its balance equal to its capacity.\<close>

definition balances_nonneg :: "env \<Rightarrow> bool" where
  "balances_nonneg e =
     list_all (\<lambda>h. 0 \<le> initial_resources h \<and> 0 \<le> current_resources h) (hospitals e)"

text \<open>The states a simulation run can reach keep every balance between 0 and the
  replenishment cap, one and a half times the capacity.\<close>

definition within_cap :: "env \<Rightarrow> bool" where
  "within_cap e =
     list_all (\<lambda>h. 0 \<le> current_resources h
                 \<and> current_resources h \<le> initial_resources h * 1.5) (hospitals e)"



text \<open>The two messages of a failed negotiation, as the source builds them.\<close>

definition admission_bid_message :: "env \<Rightarrow> patient \<Rightarrow> real \<Rightarrow> nat \<Rightarrow> message" where
  "admission_bid_message e p req i =
     \<lparr>sender = unique_id (hospitals e ! i),
      recipient = Agent (unique_id (resource_coordinator e)),
      content = AdmissionBidContent (unique_id p) req (specialization (hospitals e ! i)),
      message_type = ''ADMISSION_BID''\<rparr>"

definition unavailable_message :: "env \<Rightarrow> patient \<Rightarrow> message" where
  "unavailable_message e p =
     \<lparr>sender = unique_id (resource_coordinator e), recipient = BROADCAST,
      content = UnavailableContent (unique_id p),
      message_type = ''RESOURCE_UNAVAILABLE''\<rparr>"

text \<open>The rank of a bid as the specification writes it, to be compared with the key
  \<open>bid_key\<close> that the source sorts by: weights 0.4, 0.3 and 0.3 on the severity score,
  the capped ratio of balance to capacity, and the bid.\<close>

definition spec_rank :: "env \<Rightarrow> patient \<Rightarrow> nat \<times> real \<Rightarrow> real" where
  "spec_rank e p b =
     0.4 * severity_score p
     + 0.3 * min (current_resources (hospitals e ! fst b)
                    / initial_resources (hospitals e ! fst b)) 1.0
     + 0.3 * snd b"

text \<open>The same rank with every literal and every operation rounded, as the program
  computes it, and the amount of a transfer as the program computes it.\<close>

definition computed_rank :: "(real \<Rightarrow> real) \<Rightarrow> env \<Rightarrow> patient \<Rightarrow> nat \<times> real \<Rightarrow> real" where
  "computed_rank rnd e p b =
     rnd (rnd (rnd (rnd 0.4 * severity_score_fl rnd p)
               + rnd (rnd 0.3 * min (rnd (current_resources (hospitals e ! fst b)
                                            / initial_resources (hospitals e ! fst b)))
                                    (rnd 1.0)))
          + rnd (rnd 0.3 * snd b))"

definition transfer_amount_fl :: "(real \<Rightarrow> real) \<Rightarrow> env \<Rightarrow> nat \<Rightarrow> nat \<Rightarrow> real" where
  "transfer_amount_fl rnd e source target =
     min (rnd (current_resources (hospitals e ! source) * rnd 0.1))
         (rnd (rnd (initial_resources (hospitals e ! target) * rnd 0.2)
               - current_resources (hospitals e ! target)))"

section \<open>Properties\<close>

subsection \<open>Sending a message\<close>

lemma coordinator_send_simps:
  "hospitals (coordinator_send msg e) = hospitals e"
  "patients (coordinator_send msg e) = patients e"
  "global_message_manager (coordinator_send msg e) = global_message_manager e"
  "total_unmet_needs (coordinator_send msg e) = total_unmet_needs e"
  "resource_allocation_efficiency (coordinator_send msg e) = resource_allocation_efficiency e"
  "unique_id (resource_coordinator (coordinator_send msg e)) = unique_id (resource_coordinator e)"
  "global_strategy (resource_coordinator (coordinator_send msg e))
     = global_strategy (resource_coordinator e)"
  "coordinator_log (coordinator_send msg e) = coordinator_log e @ [msg]"
  by (simp_all add: coordinator_send_def coordinator_log_def send_message_def)

lemma coordinator_log_update:
  "coordinator_log (e\<lparr>hospitals := hs\<rparr>) = coordinator_log e"
  "coordinator_log (e\<lparr>patients := ps\<rparr>) = coordinator_log e"
  "coordinator_log (e\<lparr>total_unmet_needs := u\<rparr>) = coordinator_log e"
  "coordinator_log (e\<lparr>resource_allocation_efficiency := x\<rparr>) = coordinator_log e"
  by (simp_all add: coordinator_log_def)

lemma env_of_simps:
  "hospitals (env_of hs ps) = hs"
  "patients (env_of hs ps) = ps"
  "coordinator_log (env_of hs ps) = []"
  "unique_id (resource_coordinator (env_of hs ps)) = 1"
  "global_strategy (resource_coordinator (env_of hs ps)) = develop_allocation_strategy"
  "message_log (global_message_manager (env_of hs ps)) = []"
  by (simp_all add: env_of_def coordinator_log_def ResourceCoordinatorAgent_def
        MessageManager_def)

lemma hospital_with_simps:
  "unique_id (hospital_with uid init cur) = uid"
  "initial_resources (hospital_with uid init cur) = init"
  "current_resources (hospital_with uid init cur) = cur"
  "admission_policy (hospital_with uid init cur) = develop_admission_policy"
  "specialization (hospital_with uid init cur) = ''general''"
  by (simp_all add: hospital_with_def HospitalAgent_def)

lemma patient_with_simps:
  "unique_id (patient_with uid sev n) = uid"
  "severity (patient_with uid sev n) = sev"
  "medical_needs (patient_with uid sev n) = n"
  "unmet_needs (patient_with uid sev n) = 0"
  by (simp_all add: patient_with_def PatientAgent_def)

subsection \<open>Commit\<close>



subsection \<open>Quote\<close>

text \<open>
  C3 (as amended). \<open>evaluate_patient_admission\<close>, for a hospital with the admission policy its
  constructor gives it (weights 0.4 and 0.6): in every case exactly one
  \<open>ADMISSION_BID\<close> message is appended to the coordinator's log and the hospital list,
  with every balance, is unchanged. The result is a rejection (\<open>None\<close>) when the balance
  is below the demand. Otherwise, for every positive demand (and for any demand when the
  balance is not zero, so that the quotient of the formula exists), the score is
  \<open>0.4 * 1.0 + 0.6 * (1 - demand / balance)\<close>, the specialization match being \<open>1.0\<close>;
  the result is a rejection when the score is at most \<open>0.5\<close> and the score itself when
  it is above.
\<close>

theorem quote_rejects_or_bids:
  assumes "admission_policy (hospitals e ! i) = develop_admission_policy"
  shows "coordinator_log (snd (evaluate_patient_admission i p req e))
           = coordinator_log e @
              [\<lparr>sender = unique_id (hospitals e ! i),
                recipient = Agent (unique_id (resource_coordinator e)),
                content = AdmissionBidContent (unique_id p) req (specialization (hospitals e ! i)),
                message_type = ''ADMISSION_BID''\<rparr>]
       \<and> hospitals (snd (evaluate_patient_admission i p req e)) = hospitals e
       \<and> (current_resources (hospitals e ! i) < req \<longrightarrow>
            fst (evaluate_patient_admission i p req e) = Inr None)
       \<and> (req \<le> current_resources (hospitals e ! i)
            \<and> (0 < req \<or> current_resources (hospitals e ! i) \<noteq> 0) \<longrightarrow>
            fst (evaluate_patient_admission i p req e)
              = Inr (if 0.4 * 1.0 + 0.6 * (1 - req / current_resources (hospitals e ! i)) \<le> 0.5
                     then None
                     else Some (0.4 * 1.0 + 0.6 * (1 - req / current_resources (hospitals e ! i)))))"
  using assms
  by (auto simp add: evaluate_patient_admission_def calculate_admission_score_def Let_def
        coordinator_send_simps matches_specialization_def develop_admission_policy_def
        not_less)

theorem quote_rejects_or_bids_witness:
  "fst (evaluate_patient_admission 0 (patient_with 3 ''high'' 150) 150
          (env_of [hospital_with 2 100 100] [])) = Inr None
   \<and> fst (evaluate_patient_admission 0 (patient_with 3 ''medium'' 90) 90
          (env_of [hospital_with 2 100 100] [])) = Inr None
   \<and> fst (evaluate_patient_admission 0 (patient_with 3 ''medium'' 40) 40
          (env_of [hospital_with 2 100 100] [])) = Inr (Some 0.76)
   \<and> map message_type (coordinator_log (snd (evaluate_patient_admission 0
          (patient_with 3 ''medium'' 40) 40 (env_of [hospital_with 2 100 100] []))))
       = [''ADMISSION_BID'']"
  using quote_rejects_or_bids [of "env_of [hospital_with 2 100 100] []" 0
          "patient_with 3 ''high'' 150" 150]
        quote_rejects_or_bids [of "env_of [hospital_with 2 100 100] []" 0
          "patient_with 3 ''medium'' 90" 90]
        quote_rejects_or_bids [of "env_of [hospital_with 2 100 100] []" 0
          "patient_with 3 ''medium'' 40" 40]
  by (simp add: env_of_simps hospital_with_simps patient_with_simps)

text \<open>The quotient of the score does not exist for a hospital without any balance
  asked for a demand that is not positive: there the source raises, after the
  \<open>ADMISSION_BID\<close> message was logged. Demands drawn by \<open>generate_medical_needs\<close> are
  at least 5.\<close>

lemma quote_raises_at_zero_balance:
  "current_resources (hospitals e ! i) = 0 \<Longrightarrow> req \<le> 0 \<Longrightarrow>
   fst (evaluate_patient_admission i p req e) = Inl ZeroDivisionError"
  by (simp add: evaluate_patient_admission_def calculate_admission_score_def Let_def)

text \<open>C3 as stated, for every quote request, fails there: a hospital with balance 0 asked
  for the demand 0 does not reject and does not bid, it raises.\<close>

theorem quote_raises_without_balance_and_demand:
  "\<not> current_resources (hospitals (env_of [hospital_with 2 0 0] []) ! 0) < 0
   \<and> fst (evaluate_patient_admission 0 (patient_with 3 ''low'' 0) 0
            (env_of [hospital_with 2 0 0] [])) = Inl ZeroDivisionError"
  by (simp add: quote_raises_at_zero_balance env_of_simps hospital_with_simps)

subsection \<open>Replenishment\<close>

text \<open>
  C7 (as amended). For a hospital whose balance is at least 0 and at most the growth
  cap \<open>initial_resources * 1.5\<close>, \<open>process_resources\<close> sets the balance to
  \<open>min (balance * 1.1) (initial_resources * 1.5)\<close> and does not decrease it.
\<close>

theorem replenish_never_decreases_below_cap:
  assumes "i < length (hospitals e)"
    and "0 \<le> current_resources (hospitals e ! i)"
    and "current_resources (hospitals e ! i) \<le> initial_resources (hospitals e ! i) * 1.5"
  shows "current_resources (hospitals (process_resources i e) ! i)
           = min (current_resources (hospitals e ! i) * 1.1)
                 (initial_resources (hospitals e ! i) * 1.5)
       \<and> current_resources (hospitals e ! i)
           \<le> current_resources (hospitals (process_resources i e) ! i)"
  using assms by (simp add: process_resources_def Let_def)

theorem replenish_never_decreases_below_cap_witness:
  "current_resources (hospitals (process_resources 0 (env_of [hospital_with 2 100 80] [])) ! 0) = 88
   \<and> current_resources (hospitals (process_resources 0 (env_of [hospital_with 2 100 140] [])) ! 0)
       = 150"
  using replenish_never_decreases_below_cap [of 0 "env_of [hospital_with 2 100 80] []"]
        replenish_never_decreases_below_cap [of 0 "env_of [hospital_with 2 100 140] []"]
  by (simp add: env_of_simps hospital_with_simps)

text \<open>
  C7 as stated, with only a nonnegative balance assumed, fails: a hospital with
  \<open>initial_resources = 100\<close> and a balance of 200 is cut back to the cap 150.
\<close>

theorem replenish_decreases_above_cap:
  "0 \<le> current_resources (hospitals (env_of [hospital_with 2 100 200] []) ! 0)
   \<and> current_resources (hospitals (process_resources 0 (env_of [hospital_with 2 100 200] [])) ! 0)
       = 150
   \<and> current_resources (hospitals (process_resources 0 (env_of [hospital_with 2 100 200] [])) ! 0)
       < current_resources (hospitals (env_of [hospital_with 2 100 200] []) ! 0)"
  by (simp add: process_resources_def Let_def env_of_simps hospital_with_simps)

subsection \<open>Metrics\<close>

text \<open>
  C9. \<open>update_performance_metrics\<close> sets \<open>resource_allocation_efficiency\<close> to
  (total balance - total unmet needs) / (total balance + 1) whenever the denominator is
  not zero. With no hospitals, or with a total balance of zero, the denominator is 1:
  the update returns without a \<open>ZeroDivisionError\<close> and the efficiency is minus the
  total unmet needs.
\<close>

theorem efficiency_formula_guarded:
  "(total_balance e + 1 \<noteq> 0 \<longrightarrow>
      fst (update_performance_metrics e) = Inr ()
    \<and> resource_allocation_efficiency (snd (update_performance_metrics e))
        = (total_balance e - real_of_int (sum_list (map unmet_needs (patients e))))
          / (total_balance e + 1))
   \<and> (hospitals e = [] \<or> total_balance e = 0 \<longrightarrow>
      total_balance e + 1 = 1
    \<and> fst (update_performance_metrics e) = Inr ()
    \<and> resource_allocation_efficiency (snd (update_performance_metrics e))
        = - real_of_int (sum_list (map unmet_needs (patients e))))
   \<and> total_unmet_needs (snd (update_performance_metrics e))
        = sum_list (map unmet_needs (patients e))"
  by (auto simp add: update_performance_metrics_def Let_def total_balance_def)

theorem efficiency_formula_guarded_witness:
  "fst (update_performance_metrics (env_of [] [patient_with 2 ''low'' 7])) = Inr ()
   \<and> resource_allocation_efficiency
        (snd (update_performance_metrics (env_of [] [patient_with 2 ''low'' 7]))) = 0
   \<and> resource_allocation_efficiency
        (snd (update_performance_metrics (env_of [hospital_with 2 100 99] []))) = 0.99"
  using efficiency_formula_guarded [of "env_of [] [patient_with 2 ''low'' 7]"]
        efficiency_formula_guarded [of "env_of [hospital_with 2 100 99] []"]
  by (simp add: env_of_simps hospital_with_simps patient_with_simps total_balance_def)

subsection \<open>Rebalancing and the total\<close>

lemma sum_list_map_update:
  fixes f :: "'a \<Rightarrow> real"
  shows "k < length xs \<Longrightarrow>
    sum_list (map f (xs[k := x])) = sum_list (map f xs) - f (xs ! k) + f x"
proof (induction xs arbitrary: k)
  case Nil
  then show ?case by simp
next
  case (Cons a xs)
  then show ?case by (cases k) simp_all
qed

lemma length_hospitals_transfer:
  "length (hospitals (transfer s t e)) = length (hospitals e)"
  by (simp add: transfer_def Let_def coordinator_send_simps)

text \<open>One transfer: the source gives what the target receives. The target is read
  after the source was written, so the equation also holds when both are the same
  hospital.\<close>

lemma total_balance_transfer:
  assumes "s < length (hospitals e)" "t < length (hospitals e)"
  shows "total_balance (transfer s t e) = total_balance e"
proof -
  define hs where "hs = hospitals e"
  define amt where "amt = min (current_resources (hs ! s) * 0.1)
                             (initial_resources (hs ! t) * 0.2 - current_resources (hs ! t))"
  define hs1 where
    "hs1 = hs[s := (hs ! s)\<lparr>current_resources := current_resources (hs ! s) - amt\<rparr>]"
  define hs2 where
    "hs2 = hs1[t := (hs1 ! t)\<lparr>current_resources := current_resources (hs1 ! t) + amt\<rparr>]"
  have len: "s < length hs" "t < length hs1"
    using assms by (simp_all add: hs_def hs1_def)
  have debit: "sum_list (map current_resources hs1) = sum_list (map current_resources hs) - amt"
    unfolding hs1_def using len(1) by (simp add: sum_list_map_update)
  have credit: "sum_list (map current_resources hs2) = sum_list (map current_resources hs1) + amt"
    unfolding hs2_def using len(2) by (simp add: sum_list_map_update)
  have "hospitals (transfer s t e) = (if amt > 0 then hs2 else hs)"
    by (simp add: transfer_def Let_def coordinator_send_simps hs_def amt_def hs1_def hs2_def)
  then show ?thesis
    using debit credit by (simp add: total_balance_def hs_def)
qed

lemma total_balance_transfer_targets:
  "s < length (hospitals e) \<Longrightarrow> \<forall>t\<in>set low. t < length (hospitals e) \<Longrightarrow>
   total_balance (transfer_targets s low e) = total_balance e
   \<and> length (hospitals (transfer_targets s low e)) = length (hospitals e)"
proof (induction low arbitrary: e)
  case Nil
  then show ?case by simp
next
  case (Cons t low)
  then show ?case
    by (simp add: total_balance_transfer length_hospitals_transfer)
qed

lemma total_balance_transfer_sources:
  "\<forall>s\<in>set high. s < length (hospitals e) \<Longrightarrow> \<forall>t\<in>set low. t < length (hospitals e) \<Longrightarrow>
   total_balance (transfer_sources high low e) = total_balance e"
proof (induction high arbitrary: e)
  case Nil
  then show ?case by simp
next
  case (Cons s high)
  then show ?case
    by (simp add: total_balance_transfer_targets)
qed

lemma set_sorted_py: "set (sorted_py f r xs) = set xs"
  by (simp add: sorted_py_def)

lemma high_capacity_in_range: "\<forall>s\<in>set (high_capacity_hospitals e). s < length (hospitals e)"
  by (simp add: high_capacity_hospitals_def set_sorted_py)

lemma low_capacity_in_range: "\<forall>t\<in>set (low_capacity_hospitals e). t < length (hospitals e)"
  by (simp add: low_capacity_hospitals_def set_sorted_py)

lemma exact_rebalancing_conserves_total:
  "total_balance (coordinate_global_resources e) = total_balance e"
  using total_balance_transfer_sources [OF high_capacity_in_range low_capacity_in_range, of e]
  by (simp add: coordinate_global_resources_def)

text \<open>With the identity for the rounding, the double-arithmetic functions are the exact
  ones.\<close>

lemma transfer_fl_exact: "transfer_fl (\<lambda>x. x) s t e = transfer s t e"
  by (simp add: transfer_fl_def transfer_def)

lemma transfer_targets_fl_exact:
  "transfer_targets_fl (\<lambda>x. x) s low e = transfer_targets s low e"
  by (induction low arbitrary: e) (simp_all add: transfer_fl_exact)

lemma transfer_sources_fl_exact:
  "transfer_sources_fl (\<lambda>x. x) high low e = transfer_sources high low e"
  by (induction high arbitrary: e) (simp_all add: transfer_targets_fl_exact)

lemma coordinate_global_resources_fl_exact:
  "coordinate_global_resources_fl (\<lambda>x. x) e = coordinate_global_resources e"
  by (simp add: coordinate_global_resources_fl_def coordinate_global_resources_def
        high_capacity_hospitals_fl_def high_capacity_hospitals_def
        low_capacity_hospitals_fl_def low_capacity_hospitals_def transfer_sources_fl_exact)

text \<open>The doubles of the literals, and the evaluation of \<open>round_double\<close> on numerals.\<close>

lemmas round_double_eval = round_double_def ilog2.simps round_half_even_def Let_def power_divide

lemma double_literals:
  "round_double 0.4 = 3602879701896397 / 9007199254740992"
  "round_double 0.3 = 5404319552844595 / 18014398509481984"
  "round_double 0.2 = 3602879701896397 / 18014398509481984"
  "round_double 0.1 = 3602879701896397 / 36028797018963968"
  "round_double 1.2 = 5404319552844595 / 4503599627370496"
  "round_double 0.8 = 3602879701896397 / 4503599627370496"
  "round_double 0.5 = 1 / 2"
  "round_double 1.0 = 1"
  by (simp_all add: round_double_eval)

lemma transfer_fl_moves:
  assumes s: "source < length (hospitals e)" and t: "target < length (hospitals e)"
    and ne: "source \<noteq> target" and pos: "0 < transfer_amount_fl rnd e source target"
  shows "current_resources (hospitals (transfer_fl rnd source target e) ! source)
           = rnd (current_resources (hospitals e ! source) - transfer_amount_fl rnd e source target)"
    and "current_resources (hospitals (transfer_fl rnd source target e) ! target)
           = rnd (current_resources (hospitals e ! target) + transfer_amount_fl rnd e source target)"
    and "total_balance (transfer_fl rnd source target e)
           = total_balance e
             + (rnd (current_resources (hospitals e ! source) - transfer_amount_fl rnd e source target)
                - (current_resources (hospitals e ! source) - transfer_amount_fl rnd e source target))
             + (rnd (current_resources (hospitals e ! target) + transfer_amount_fl rnd e source target)
                - (current_resources (hospitals e ! target) + transfer_amount_fl rnd e source target))"
proof -
  define hs where "hs = hospitals e"
  define amt where "amt = transfer_amount_fl rnd e source target"
  define hs1 where
    "hs1 = hs[source := (hs ! source)\<lparr>current_resources :=
                rnd (current_resources (hs ! source) - amt)\<rparr>]"
  define hs2 where
    "hs2 = hs1[target := (hs1 ! target)\<lparr>current_resources :=
                rnd (current_resources (hs1 ! target) + amt)\<rparr>]"
  have len: "source < length hs" "target < length hs1" "target < length hs"
    using s t by (simp_all add: hs_def hs1_def)
  have same: "hs1 ! target = hs ! target"
    using ne by (simp add: hs1_def)
  have eq: "hospitals (transfer_fl rnd source target e) = hs2"
    using pos
    by (simp add: transfer_fl_def transfer_amount_fl_def Let_def coordinator_send_simps
          hs_def amt_def hs1_def hs2_def)
  have debit: "sum_list (map current_resources hs1)
                 = sum_list (map current_resources hs) - current_resources (hs ! source)
                   + rnd (current_resources (hs ! source) - amt)"
    unfolding hs1_def using len(1) by (simp add: sum_list_map_update)
  have credit: "sum_list (map current_resources hs2)
                 = sum_list (map current_resources hs1) - current_resources (hs ! target)
                   + rnd (current_resources (hs ! target) + amt)"
    unfolding hs2_def using len(2) by (simp add: sum_list_map_update same)
  show "current_resources (hospitals (transfer_fl rnd source target e) ! source)
           = rnd (current_resources (hospitals e ! source) - transfer_amount_fl rnd e source target)"
    using len ne by (simp add: eq hs2_def hs1_def hs_def amt_def)
  show "current_resources (hospitals (transfer_fl rnd source target e) ! target)
           = rnd (current_resources (hospitals e ! target) + transfer_amount_fl rnd e source target)"
    using len ne by (simp add: eq hs2_def same) (simp add: hs_def amt_def)
  show "total_balance (transfer_fl rnd source target e)
           = total_balance e
             + (rnd (current_resources (hospitals e ! source) - transfer_amount_fl rnd e source target)
                - (current_resources (hospitals e ! source) - transfer_amount_fl rnd e source target))
             + (rnd (current_resources (hospitals e ! target) + transfer_amount_fl rnd e source target)
                - (current_resources (hospitals e ! target) + transfer_amount_fl rnd e source target))"
    using debit credit by (simp add: total_balance_def eq) (simp add: hs_def amt_def)
qed

lemma transfer_fl_idle:
  "\<not> 0 < transfer_amount_fl rnd e source target \<Longrightarrow> transfer_fl rnd source target e = e"
  by (auto simp add: transfer_fl_def transfer_amount_fl_def Let_def)

text \<open>
  C6 (as amended). In exact arithmetic a full pass of \<open>coordinate_global_resources\<close> leaves
  the sum of all hospital balances as it was. In the arithmetic of the program, whatever
  its rounding \<open>rnd\<close>, a transfer between two different hospitals of the list takes from
  the source and adds to the target the same \<open>transfer_amount\<close>, each new balance being
  rounded, so that the sum changes by exactly the two rounding errors, and by nothing
  when both new balances are representable; a transfer whose amount is not positive
  changes nothing.
\<close>

theorem rebalancing_conserves_total_up_to_rounding:
  "(source < length (hospitals e) \<and> target < length (hospitals e) \<and> source \<noteq> target
      \<and> 0 < transfer_amount_fl rnd e source target \<longrightarrow>
        current_resources (hospitals (transfer_fl rnd source target e) ! source)
          = rnd (current_resources (hospitals e ! source) - transfer_amount_fl rnd e source target)
      \<and> current_resources (hospitals (transfer_fl rnd source target e) ! target)
          = rnd (current_resources (hospitals e ! target) + transfer_amount_fl rnd e source target)
      \<and> total_balance (transfer_fl rnd source target e)
          = total_balance e
            + (rnd (current_resources (hospitals e ! source) - transfer_amount_fl rnd e source target)
               - (current_resources (hospitals e ! source) - transfer_amount_fl rnd e source target))
            + (rnd (current_resources (hospitals e ! target) + transfer_amount_fl rnd e source target)
               - (current_resources (hospitals e ! target) + transfer_amount_fl rnd e source target)))
   \<and> (\<not> 0 < transfer_amount_fl rnd e source target \<longrightarrow> transfer_fl rnd source target e = e)
   \<and> total_balance (coordinate_global_resources_fl (\<lambda>x. x) e) = total_balance e"
  using transfer_fl_moves [of source e target rnd] transfer_fl_idle [of rnd e source target]
  by (simp add: coordinate_global_resources_fl_exact exact_rebalancing_conserves_total)

lemma drift_env_simps:
  "hospitals drift_env = [hospital_with 2 1000 (5283373273789235 / 4398046511104),
                          hospital_with 3 1000 0]"
  by (simp add: drift_env_def env_of_simps)

lemma drift_amount:
  "transfer_amount_fl round_double drift_env 0 1 = 1056674654757847 / 8796093022208"
  unfolding transfer_amount_fl_def
  apply (simp add: drift_env_simps hospital_with_simps double_literals)
  apply (simp add: round_double_eval)
  done

lemma drift_roundings:
  "round_double (5283373273789235 / 4398046511104 - 1056674654757847 / 8796093022208)
     = 594379493301289 / 549755813888"
  "round_double (9510071892820623 / 8796093022208) = 594379493301289 / 549755813888"
  "round_double (1056674654757847 / 8796093022208) = 1056674654757847 / 8796093022208"
  "round_double (10566746547578471 / 8796093022208) = 1320843318447309 / 1099511627776"
  by (simp_all add: round_double_eval)

theorem rebalancing_conserves_total_up_to_rounding_witness:
  "total_balance (transfer_fl round_double 0 1 drift_env)
     = 5283373273789235 / 4398046511104 + 1 / 8796093022208
   \<and> total_balance (coordinate_global_resources_fl (\<lambda>x. x) drift_env)
       = 5283373273789235 / 4398046511104"
  using rebalancing_conserves_total_up_to_rounding [of 0 drift_env 1 round_double]
  by (simp add: drift_amount [unfolded One_nat_def] drift_roundings drift_env_simps
        hospital_with_simps total_balance_def)

text \<open>C6 as stated fails in double arithmetic. The pass on capacities 1000 and balances
  1201.3 and 0 is one transfer of 120.13, which leaves the doubles 1081.17 and 120.13.
  Their sum is not that of the balances before, and neither is the double nearest to it,
  1201.3000000000002, which is what Python computes for the sum.\<close>

theorem rebalancing_drifts_in_double_arithmetic:
  "map current_resources (hospitals (coordinate_global_resources_fl round_double drift_env))
     = [594379493301289 / 549755813888, 1056674654757847 / 8796093022208]
   \<and> sum_list (map current_resources
         (hospitals (coordinate_global_resources_fl round_double drift_env)))
       \<noteq> sum_list (map current_resources (hospitals drift_env))
   \<and> round_double (sum_list (map current_resources
         (hospitals (coordinate_global_resources_fl round_double drift_env))))
       \<noteq> sum_list (map current_resources (hospitals drift_env))"
proof -
  have high: "high_capacity_hospitals_fl round_double drift_env = [0]"
    unfolding high_capacity_hospitals_fl_def
    apply (simp add: drift_env_simps hospital_with_simps double_literals sorted_py_def upt_rec)
    apply (simp add: round_double_eval)
    done
  have low: "low_capacity_hospitals_fl round_double drift_env = [1]"
    unfolding low_capacity_hospitals_fl_def
    apply (simp add: drift_env_simps hospital_with_simps double_literals sorted_py_def upt_rec)
    apply (simp add: round_double_eval)
    done
  have pass: "coordinate_global_resources_fl round_double drift_env
                = transfer_fl round_double 0 1 drift_env"
    by (simp add: coordinate_global_resources_fl_def high low)
  have pos: "0 < transfer_amount_fl round_double drift_env 0 1"
    by (simp only: drift_amount)
  have s: "current_resources (hospitals (transfer_fl round_double 0 1 drift_env) ! 0)
             = 594379493301289 / 549755813888"
    using transfer_fl_moves(1) [of 0 drift_env 1 round_double, OF _ _ _ pos]
    by (simp add: drift_amount [unfolded One_nat_def] drift_roundings drift_env_simps
          hospital_with_simps)
  have t: "current_resources (hospitals (transfer_fl round_double 0 1 drift_env) ! 1)
             = 1056674654757847 / 8796093022208"
    using transfer_fl_moves(2) [of 0 drift_env 1 round_double, OF _ _ _ pos]
    by (simp add: drift_amount [unfolded One_nat_def] drift_roundings drift_env_simps
          hospital_with_simps)
  have len: "length (hospitals (transfer_fl round_double 0 1 drift_env)) = 2"
    by (simp add: transfer_fl_def Let_def coordinator_send_simps drift_env_simps)
  have "map current_resources (hospitals (transfer_fl round_double 0 1 drift_env))
          = [594379493301289 / 549755813888, 1056674654757847 / 8796093022208]"
    using len s t by (auto simp: list_eq_iff_nth_eq less_Suc_eq numeral_2_eq_2)
  then show ?thesis
    by (simp add: pass drift_env_simps hospital_with_simps drift_roundings)
qed

subsection \<open>The message logs\<close>


























subsection \<open>Balances stay nonnegative\<close>

lemma list_all_update:
  assumes "list_all P xs" and "i < length xs \<Longrightarrow> P x"
  shows "list_all P (xs[i := x])"
proof (cases "i < length xs")
  case True
  with assms show ?thesis
    by (auto simp: list_all_iff dest: set_update_subset_insert [THEN subsetD])
next
  case False
  then have "xs[i := x] = xs" by (simp add: list_update_beyond)
  with assms(1) show ?thesis by simp
qed

lemma balances_nonneg_nth:
  "balances_nonneg e \<Longrightarrow> i < length (hospitals e) \<Longrightarrow>
   0 \<le> initial_resources (hospitals e ! i) \<and> 0 \<le> current_resources (hospitals e ! i)"
  by (simp add: balances_nonneg_def list_all_length)

lemma balances_nonneg_cong:
  "hospitals e' = hospitals e \<Longrightarrow> balances_nonneg e' = balances_nonneg e"
  by (simp add: balances_nonneg_def)

lemma balances_nonneg_evaluate:
  "balances_nonneg e \<Longrightarrow> balances_nonneg (snd (evaluate_patient_admission i p req e))"
  by (simp add: evaluate_patient_admission_def Let_def coordinator_send_simps
        balances_nonneg_def split: sum.splits)

lemma balances_nonneg_hospital_allocate:
  assumes "balances_nonneg e"
  shows "balances_nonneg (snd (HospitalAgent_allocate_resources i p sc e))"
proof (cases "real_of_int (medical_needs p) \<le> current_resources (hospitals e ! i)")
  case True
  have "list_all (\<lambda>h. 0 \<le> initial_resources h \<and> 0 \<le> current_resources h)
          ((hospitals e)[i := (hospitals e ! i)\<lparr>current_resources :=
              current_resources (hospitals e ! i) - real_of_int (medical_needs p)\<rparr>])"
    using assms True balances_nonneg_nth [OF assms, of i]
    by (intro list_all_update) (simp_all add: balances_nonneg_def)
  with True show ?thesis
    by (simp add: HospitalAgent_allocate_resources_def Let_def coordinator_send_simps
          balances_nonneg_def)
next
  case False
  with assms show ?thesis
    by (simp add: HospitalAgent_allocate_resources_def Let_def)
qed

lemma balances_nonneg_process:
  assumes "balances_nonneg e"
  shows "balances_nonneg (process_resources i e)"
proof -
  have "list_all (\<lambda>h. 0 \<le> initial_resources h \<and> 0 \<le> current_resources h)
          ((hospitals e)[i := (hospitals e ! i)\<lparr>current_resources :=
              min (current_resources (hospitals e ! i) * 1.1)
                  (initial_resources (hospitals e ! i) * 1.5)\<rparr>])"
    using assms balances_nonneg_nth [OF assms, of i]
    by (intro list_all_update) (simp_all add: balances_nonneg_def)
  then show ?thesis
    by (simp add: process_resources_def Let_def balances_nonneg_def)
qed

lemma balances_nonneg_transfer:
  assumes "balances_nonneg e"
  shows "balances_nonneg (transfer s t e)"
proof -
  let ?P = "\<lambda>h. 0 \<le> initial_resources h \<and> 0 \<le> current_resources h"
  define hs where "hs = hospitals e"
  define amt where "amt = min (current_resources (hs ! s) * 0.1)
                             (initial_resources (hs ! t) * 0.2 - current_resources (hs ! t))"
  define hs1 where
    "hs1 = hs[s := (hs ! s)\<lparr>current_resources := current_resources (hs ! s) - amt\<rparr>]"
  define hs2 where
    "hs2 = hs1[t := (hs1 ! t)\<lparr>current_resources := current_resources (hs1 ! t) + amt\<rparr>]"
  have hs: "list_all ?P hs" using assms by (simp add: balances_nonneg_def hs_def)
  have eq: "hospitals (transfer s t e) = (if amt > 0 then hs2 else hs)"
    by (simp add: transfer_def Let_def coordinator_send_simps hs_def amt_def hs1_def hs2_def)
  show ?thesis
  proof (cases "amt > 0")
    case False
    with eq hs show ?thesis by (simp add: balances_nonneg_def)
  next
    case True
    have "amt \<le> current_resources (hs ! s) * 0.1" unfolding amt_def by (rule min.cobounded1)
    with True have src: "0 \<le> current_resources (hs ! s) - amt" by simp
    have 1: "list_all ?P hs1"
      unfolding hs1_def using hs src
      by (intro list_all_update) (simp_all add: list_all_length)
    have 2: "list_all ?P hs2"
      unfolding hs2_def using 1 True
      by (intro list_all_update) (simp_all add: list_all_length add_nonneg_nonneg)
    with eq True show ?thesis by (simp add: balances_nonneg_def)
  qed
qed

lemma balances_nonneg_transfer_targets:
  "balances_nonneg e \<Longrightarrow> balances_nonneg (transfer_targets s low e)"
  by (induction low arbitrary: e) (simp_all add: balances_nonneg_transfer)

lemma balances_nonneg_transfer_sources:
  "balances_nonneg e \<Longrightarrow> balances_nonneg (transfer_sources high low e)"
  by (induction high arbitrary: e) (simp_all add: balances_nonneg_transfer_targets)

lemma balances_nonneg_coordinate:
  "balances_nonneg e \<Longrightarrow> balances_nonneg (coordinate_global_resources e)"
  by (simp add: coordinate_global_resources_def balances_nonneg_transfer_sources)

lemma balances_nonneg_send:
  "balances_nonneg (coordinator_send m e) = balances_nonneg e"
  by (simp add: balances_nonneg_def coordinator_send_simps)

lemma balances_nonneg_update:
  "balances_nonneg (e\<lparr>patients := ps\<rparr>) = balances_nonneg e"
  "balances_nonneg (e\<lparr>total_unmet_needs := u\<rparr>) = balances_nonneg e"
  "balances_nonneg (e\<lparr>resource_allocation_efficiency := x\<rparr>) = balances_nonneg e"
  by (simp_all add: balances_nonneg_def)

lemma balances_nonneg_collect_bids:
  "balances_nonneg e \<Longrightarrow> balances_nonneg (snd (collect_bids is p req bids e))"
proof (induction "is" arbitrary: bids e)
  case Nil
  then show ?case by simp
next
  case (Cons i rest)
  obtain r e1 where ev: "evaluate_patient_admission i p req e = (r, e1)"
    by (cases "evaluate_patient_admission i p req e")
  have 1: "balances_nonneg e1"
    using balances_nonneg_evaluate [OF Cons.prems, of i p req] ev by simp
  show ?case
    using ev 1 Cons.IH [OF 1]
    by (simp split: sum.splits option.splits)
qed

lemma balances_nonneg_coordinator_allocate:
  "balances_nonneg e \<Longrightarrow>
   balances_nonneg (snd (ResourceCoordinatorAgent_allocate_resources p bids e))"
  by (simp add: ResourceCoordinatorAgent_allocate_resources_def Let_def split_def
        balances_nonneg_send balances_nonneg_hospital_allocate
        split: sum.splits list.splits)

lemma balances_nonneg_negotiate:
  assumes "balances_nonneg e"
  shows "balances_nonneg (snd (negotiate_resource_allocation p req e))"
proof -
  obtain r e1 where cb: "collect_bids [0..<length (hospitals e)] p req [] e = (r, e1)"
    by (cases "collect_bids [0..<length (hospitals e)] p req [] e")
  have 1: "balances_nonneg e1"
    using balances_nonneg_collect_bids [OF assms, of "[0..<length (hospitals e)]" p req "[]"] cb
    by simp
  show ?thesis
    using cb 1 balances_nonneg_coordinator_allocate [OF 1]
    by (simp add: negotiate_resource_allocation_def split: sum.splits)
qed

lemma balances_nonneg_generate:
  "balances_nonneg e \<Longrightarrow> balances_nonneg (snd (generate_medical_needs j r e))"
  by (simp add: generate_medical_needs_def Let_def split_def balances_nonneg_update
        balances_nonneg_send balances_nonneg_negotiate split: sum.splits)

lemma balances_nonneg_generate_all:
  "balances_nonneg e \<Longrightarrow> balances_nonneg (snd (generate_all js rnd e))"
proof (induction js arbitrary: e)
  case Nil
  then show ?case by simp
next
  case (Cons j rest)
  obtain r e1 where g: "generate_medical_needs j (rnd j) e = (r, e1)"
    by (cases "generate_medical_needs j (rnd j) e")
  have 1: "balances_nonneg e1"
    using balances_nonneg_generate [OF Cons.prems, of j "rnd j"] g by simp
  show ?case
    using g 1 Cons.IH [OF 1] by (simp split: sum.splits)
qed

lemma balances_nonneg_process_all:
  "balances_nonneg e \<Longrightarrow> balances_nonneg (process_all is e)"
  by (induction "is" arbitrary: e) (simp_all add: balances_nonneg_process)

lemma balances_nonneg_metrics:
  "balances_nonneg e \<Longrightarrow> balances_nonneg (snd (update_performance_metrics e))"
  by (simp add: update_performance_metrics_def Let_def balances_nonneg_update)

lemma balances_nonneg_step:
  assumes "balances_nonneg e"
  shows "balances_nonneg (snd (step rnd e))"
proof -
  obtain r e1 where g: "generate_all [0..<length (patients e)] rnd e = (r, e1)"
    by (cases "generate_all [0..<length (patients e)] rnd e")
  have 1: "balances_nonneg e1"
    using balances_nonneg_generate_all [OF assms, of "[0..<length (patients e)]" rnd] g by simp
  have 2: "balances_nonneg (snd (update_performance_metrics (coordinate_global_resources
              (process_all [0..<length (hospitals e1)] e1))))"
    using 1 by (intro balances_nonneg_metrics balances_nonneg_coordinate
          balances_nonneg_process_all)
  show ?thesis
    using g 1 2 by (simp add: step_def Let_def split: sum.splits)
qed

lemma balances_nonneg_run_steps:
  "balances_nonneg e \<Longrightarrow> balances_nonneg (snd (run_steps n rnd e))"
proof (induction n arbitrary: rnd e)
  case 0
  then show ?case by simp
next
  case (Suc n)
  obtain r e1 where g: "step (rnd 0) e = (r, e1)"
    by (cases "step (rnd 0) e")
  have 1: "balances_nonneg e1" using balances_nonneg_step [OF Suc.prems, of "rnd 0"] g by simp
  show ?case
    using g 1 Suc.IH [OF 1] by (simp split: sum.splits)
qed

lemma balances_nonneg_constructed:
  "0 \<le> init \<Longrightarrow> balances_nonneg (ResourceAllocationEnvironment nh np init spec_rnd sev_rnd)"
  by (simp add: ResourceAllocationEnvironment_def balances_nonneg_def list_all_iff
        HospitalAgent_def)

text \<open>
  C1. If no hospital has a negative capacity or a negative balance (as is the case after
  construction with \<open>initial_resources \<ge> 0\<close>, where every balance starts at the
  capacity), then the same holds after a quote, after a commit, after replenishment,
  after every single transfer, after a whole rebalancing pass, after a whole step and
  after any number of steps.
\<close>

theorem balance_never_negative:
  "(0 \<le> init \<longrightarrow>
      balances_nonneg (ResourceAllocationEnvironment nh np init spec_rnd sev_rnd))
   \<and> (balances_nonneg e \<longrightarrow>
        balances_nonneg (snd (evaluate_patient_admission i p req e))
      \<and> balances_nonneg (snd (HospitalAgent_allocate_resources i p sc e))
      \<and> balances_nonneg (process_resources i e)
      \<and> balances_nonneg (transfer s t e)
      \<and> balances_nonneg (coordinate_global_resources e)
      \<and> balances_nonneg (snd (step rnd e))
      \<and> balances_nonneg (snd (run_steps n rnds e))
      \<and> (\<forall>h\<in>set (hospitals (snd (run_steps n rnds e))). 0 \<le> current_resources h))"
proof -
  have "\<forall>h\<in>set (hospitals (snd (run_steps n rnds e))). 0 \<le> current_resources h"
    if "balances_nonneg e"
    using balances_nonneg_run_steps [OF that, of n rnds]
    by (simp add: balances_nonneg_def list_all_iff)
  then show ?thesis
    by (simp add: balances_nonneg_constructed balances_nonneg_evaluate
          balances_nonneg_hospital_allocate balances_nonneg_process balances_nonneg_transfer
          balances_nonneg_coordinate balances_nonneg_step balances_nonneg_run_steps)
qed

theorem balance_never_negative_witness:
  "balances_nonneg (env_of [hospital_with 2 100 150, hospital_with 3 100 10] [])
   \<and> balances_nonneg (coordinate_global_resources
        (env_of [hospital_with 2 100 150, hospital_with 3 100 10] []))
   \<and> balances_nonneg (snd (HospitalAgent_allocate_resources 1 (patient_with 4 ''low'' 10) 0.9
        (env_of [hospital_with 2 100 150, hospital_with 3 100 10] [])))
   \<and> balances_nonneg (snd (run_steps 5 (\<lambda>k j. k + j)
        (ResourceAllocationEnvironment 5 50 1000 (\<lambda>k. k) (\<lambda>k. k))))"
proof -
  have h: "balances_nonneg (env_of [hospital_with 2 100 150, hospital_with 3 100 10] [])"
    by (simp add: balances_nonneg_def env_of_simps hospital_with_simps)
  have c: "balances_nonneg (ResourceAllocationEnvironment 5 50 1000 (\<lambda>k. k) (\<lambda>k. k))"
    using balance_never_negative [of 1000 5 50 "\<lambda>k. k" "\<lambda>k. k"] by simp
  show ?thesis
    using h c
      balance_never_negative [of 0 0 0 "\<lambda>k. k" "\<lambda>k. k"
        "env_of [hospital_with 2 100 150, hospital_with 3 100 10] []" 1
        "patient_with 4 ''low'' 10" 0 "0.9" 0 1 "\<lambda>k. k" 0 "\<lambda>k j. k + j"]
      balance_never_negative [of 0 0 0 "\<lambda>k. k" "\<lambda>k. k"
        "ResourceAllocationEnvironment 5 50 1000 (\<lambda>k. k) (\<lambda>k. k)" 0
        "patient_with 4 ''low'' 10" 0 "0.9" 0 1 "\<lambda>k. k" 5 "\<lambda>k j. k + j"]
    by simp
qed

subsection \<open>Demand generation\<close>

lemma snd_evaluate_patient_admission:
  "snd (evaluate_patient_admission i p req e)
     = coordinator_send (admission_bid_message e p req i) e"
  by (simp add: evaluate_patient_admission_def admission_bid_message_def Let_def
        split: sum.splits)

lemma patients_evaluate:
  "patients (snd (evaluate_patient_admission i p req e)) = patients e"
  by (simp add: snd_evaluate_patient_admission coordinator_send_simps)

lemma patients_hospital_allocate:
  "patients (snd (HospitalAgent_allocate_resources i p sc e)) = patients e"
  by (simp add: HospitalAgent_allocate_resources_def Let_def coordinator_send_simps)

lemma patients_collect_bids:
  "patients (snd (collect_bids is p req bids e)) = patients e"
proof (induction "is" arbitrary: bids e)
  case Nil
  show ?case by simp
next
  case (Cons i rest)
  obtain r e1 where ev: "evaluate_patient_admission i p req e = (r, e1)"
    by (cases "evaluate_patient_admission i p req e")
  have "patients e1 = patients e" using patients_evaluate [of i p req e] ev by simp
  then show ?case
    using ev Cons by (simp split: sum.splits option.splits)
qed

lemma patients_coordinator_allocate:
  "patients (snd (ResourceCoordinatorAgent_allocate_resources p bids e)) = patients e"
  by (simp add: ResourceCoordinatorAgent_allocate_resources_def Let_def split_def
        coordinator_send_simps patients_hospital_allocate split: sum.splits list.splits)

lemma patients_negotiate:
  "patients (snd (negotiate_resource_allocation p req e)) = patients e"
proof -
  obtain r e1 where cb: "collect_bids [0..<length (hospitals e)] p req [] e = (r, e1)"
    by (cases "collect_bids [0..<length (hospitals e)] p req [] e")
  have "patients e1 = patients e"
    using patients_collect_bids [of "[0..<length (hospitals e)]" p req "[]" e] cb by simp
  then show ?thesis
    using cb by (simp add: negotiate_resource_allocation_def patients_coordinator_allocate
        split: sum.splits)
qed

text \<open>The demand a patient ends up with is the value drawn.\<close>

lemma medical_needs_generate:
  assumes "j < length (patients e)"
    and "randint (fst (severity_resource_ranges (severity (patients e ! j))))
                 (snd (severity_resource_ranges (severity (patients e ! j)))) r = Inr n"
  shows "medical_needs (patients (snd (generate_medical_needs j r e)) ! j) = n"
    and "severity (patients (snd (generate_medical_needs j r e)) ! j) = severity (patients e ! j)"
  using assms
  by (simp_all add: generate_medical_needs_def Let_def split_def patients_negotiate
        coordinator_send_simps split: sum.splits)

lemma randint_bounds:
  "a \<le> b \<Longrightarrow> \<exists>n. randint a b r = Inr n \<and> a \<le> n \<and> n \<le> b"
proof -
  assume ab: "a \<le> b"
  have "r mod nat (b - a + 1) < nat (b - a + 1)" using ab by simp
  then have "int (r mod nat (b - a + 1)) \<le> b - a" using ab by linarith
  then show ?thesis using ab by (simp add: randint_def)
qed

text \<open>
  C8 (as amended). The demand drawn by \<open>generate_medical_needs\<close> lies in the closed
  range of the patient's severity: 5 to 20 for \<open>low\<close>, 20 to 100 for \<open>medium\<close>, 100 to
  200 for \<open>high\<close>, both ends included.
\<close>

theorem demand_in_closed_range:
  assumes "j < length (patients e)"
  shows "(severity (patients e ! j) = ''low'' \<longrightarrow>
            5 \<le> medical_needs (patients (snd (generate_medical_needs j r e)) ! j)
          \<and> medical_needs (patients (snd (generate_medical_needs j r e)) ! j) \<le> 20)
       \<and> (severity (patients e ! j) = ''medium'' \<longrightarrow>
            20 \<le> medical_needs (patients (snd (generate_medical_needs j r e)) ! j)
          \<and> medical_needs (patients (snd (generate_medical_needs j r e)) ! j) \<le> 100)
       \<and> (severity (patients e ! j) = ''high'' \<longrightarrow>
            100 \<le> medical_needs (patients (snd (generate_medical_needs j r e)) ! j)
          \<and> medical_needs (patients (snd (generate_medical_needs j r e)) ! j) \<le> 200)"
proof -
  let ?rng = "severity_resource_ranges (severity (patients e ! j))"
  have le: "fst ?rng \<le> snd ?rng" by (simp add: severity_resource_ranges_def)
  from randint_bounds [OF le, of r] obtain n where
    n: "randint (fst ?rng) (snd ?rng) r = Inr n" "fst ?rng \<le> n" "n \<le> snd ?rng" by blast
  have "medical_needs (patients (snd (generate_medical_needs j r e)) ! j) = n"
    using medical_needs_generate(1) [OF assms n(1)] .
  with n(2,3) show ?thesis
    by (simp add: severity_resource_ranges_def split: if_splits)
qed

theorem demand_in_closed_range_witness:
  "5 \<le> medical_needs (patients (snd (generate_medical_needs 0 3
            (env_of [hospital_with 2 100 100] [PatientAgent 3 ''low'']))) ! 0)
   \<and> medical_needs (patients (snd (generate_medical_needs 0 3
            (env_of [hospital_with 2 100 100] [PatientAgent 3 ''low'']))) ! 0) \<le> 20"
  using demand_in_closed_range [of 0 "env_of [hospital_with 2 100 100] [PatientAgent 3 ''low'']" 3]
  by (simp add: env_of_simps PatientAgent_def)

text \<open>
  C8 as stated, with the upper ends excluded, fails: \<open>random.randint\<close> includes both
  ends, and a patient of severity \<open>low\<close> can draw the demand 20.
\<close>

theorem demand_reaches_upper_end:
  "severity (patients (env_of [] [PatientAgent 2 ''low'']) ! 0) = ''low''
   \<and> medical_needs (patients (snd (generate_medical_needs 0 15
        (env_of [] [PatientAgent 2 ''low'']))) ! 0) = 20
   \<and> \<not> medical_needs (patients (snd (generate_medical_needs 0 15
        (env_of [] [PatientAgent 2 ''low'']))) ! 0) < 20"
proof -
  have "medical_needs (patients (snd (generate_medical_needs 0 15
          (env_of [] [PatientAgent 2 ''low'']))) ! 0) = 20"
    by (rule medical_needs_generate(1))
       (simp_all add: env_of_simps PatientAgent_def severity_resource_ranges_def randint_def)
  then show ?thesis by (simp add: env_of_simps PatientAgent_def)
qed

subsection \<open>Negotiation without a bid\<close>

lemma admission_bid_message_send:
  "admission_bid_message (coordinator_send m e) p req = admission_bid_message e p req"
  by (simp add: admission_bid_message_def coordinator_send_simps fun_eq_iff)

lemma admission_bid_message_types:
  "map (message_type \<circ> admission_bid_message e p req) is
     = replicate (length is) ''ADMISSION_BID''"
  by (induction "is") (simp_all add: admission_bid_message_def)

lemma evaluate_rejects:
  "current_resources (hospitals e ! i) < req \<Longrightarrow>
   evaluate_patient_admission i p req e
     = (Inr None, coordinator_send (admission_bid_message e p req i) e)"
  by (simp add: evaluate_patient_admission_def admission_bid_message_def Let_def)

lemma collect_bids_all_reject:
  assumes "\<forall>i\<in>set is. current_resources (hospitals e ! i) < req"
  shows "fst (collect_bids is p req bids e) = Inr bids
       \<and> hospitals (snd (collect_bids is p req bids e)) = hospitals e
       \<and> unique_id (resource_coordinator (snd (collect_bids is p req bids e)))
           = unique_id (resource_coordinator e)
       \<and> coordinator_log (snd (collect_bids is p req bids e))
           = coordinator_log e @ map (admission_bid_message e p req) is"
  using assms
proof (induction "is" arbitrary: e)
  case Nil
  show ?case by simp
next
  case (Cons i rest)
  let ?e1 = "coordinator_send (admission_bid_message e p req i) e"
  have ev: "evaluate_patient_admission i p req e = (Inr None, ?e1)"
    using Cons.prems by (simp add: evaluate_rejects)
  have "\<forall>k\<in>set rest. current_resources (hospitals ?e1 ! k) < req"
    using Cons.prems by (simp add: coordinator_send_simps)
  from Cons.IH [OF this] show ?case
    by (simp add: ev coordinator_send_simps admission_bid_message_send)
qed

lemma negotiate_no_bids:
  assumes "\<forall>h\<in>set (hospitals e). current_resources h < req"
  shows "fst (negotiate_resource_allocation p req e) = Inr None
       \<and> hospitals (snd (negotiate_resource_allocation p req e)) = hospitals e
       \<and> coordinator_log (snd (negotiate_resource_allocation p req e))
           = coordinator_log e
             @ map (admission_bid_message e p req) [0..<length (hospitals e)]
             @ [unavailable_message e p]"
proof -
  let ?is = "[0..<length (hospitals e)]"
  have "\<forall>i\<in>set ?is. current_resources (hospitals e ! i) < req"
    using assms by simp
  from collect_bids_all_reject [OF this, of p "[]"]
  obtain e1 where cb: "collect_bids ?is p req [] e = (Inr [], e1)"
    and e1: "hospitals e1 = hospitals e"
      "unique_id (resource_coordinator e1) = unique_id (resource_coordinator e)"
      "coordinator_log e1 = coordinator_log e @ map (admission_bid_message e p req) ?is"
    by (cases "collect_bids ?is p req [] e") auto
  show ?thesis
    using e1
    by (simp add: negotiate_resource_allocation_def cb
          ResourceCoordinatorAgent_allocate_resources_def Let_def coordinator_send_simps
          unavailable_message_def)
qed

text \<open>
  C5. Let \<open>n\<close> be the demand that patient \<open>j\<close> draws, and let every hospital's balance
  be strictly below \<open>n\<close>. Then every quote for that demand is a rejection, the
  negotiation returns \<open>None\<close>, and \<open>generate_medical_needs\<close> returns normally with the
  hospital list unchanged and the patient's \<open>unmet_needs\<close> equal to its
  \<open>medical_needs\<close>, which is \<open>n\<close>. The coordinator's log grows by the \<open>MEDICAL_NEEDS\<close>
  message, one \<open>ADMISSION_BID\<close> per hospital and, last, the \<open>RESOURCE_UNAVAILABLE\<close>
  message addressed to \<open>BROADCAST\<close>.
\<close>

theorem no_bid_leaves_demand_unmet:
  assumes j: "j < length (patients e)"
    and draw: "randint (fst (severity_resource_ranges (severity (patients e ! j))))
                       (snd (severity_resource_ranges (severity (patients e ! j)))) r = Inr n"
    and low: "\<forall>h\<in>set (hospitals e). current_resources h < real_of_int n"
  shows "(\<forall>i<length (hospitals e).
            fst (evaluate_patient_admission i ((patients e ! j)\<lparr>medical_needs := n\<rparr>)
                   (real_of_int n) e) = Inr None)
       \<and> fst (negotiate_resource_allocation ((patients e ! j)\<lparr>medical_needs := n\<rparr>)
                (real_of_int n) e) = Inr None
       \<and> fst (generate_medical_needs j r e) = Inr ()
       \<and> hospitals (snd (generate_medical_needs j r e)) = hospitals e
       \<and> medical_needs (patients (snd (generate_medical_needs j r e)) ! j) = n
       \<and> unmet_needs (patients (snd (generate_medical_needs j r e)) ! j) = n
       \<and> map message_type (drop (length (coordinator_log e))
                                 (coordinator_log (snd (generate_medical_needs j r e))))
           = ''MEDICAL_NEEDS'' # replicate (length (hospitals e)) ''ADMISSION_BID''
               @ [''RESOURCE_UNAVAILABLE'']
       \<and> recipient (last (coordinator_log (snd (generate_medical_needs j r e)))) = BROADCAST"
proof -
  let ?p = "(patients e ! j)\<lparr>medical_needs := n\<rparr>"
  let ?e1 = "e\<lparr>patients := (patients e)[j := ?p]\<rparr>"
  let ?m = "\<lparr>sender = unique_id ?p,
             recipient = Agent (unique_id (resource_coordinator e)),
             content = MedicalNeedsContent n (severity ?p),
             message_type = ''MEDICAL_NEEDS''\<rparr>"
  let ?e2 = "coordinator_send ?m ?e1"
  have quotes: "\<forall>i<length (hospitals e).
            fst (evaluate_patient_admission i ?p (real_of_int n) e) = Inr None"
    using low by (simp add: evaluate_rejects)
  have neg0: "fst (negotiate_resource_allocation ?p (real_of_int n) e) = Inr None"
    using negotiate_no_bids [OF low, of ?p] by simp
  have low2: "\<forall>h\<in>set (hospitals ?e2). current_resources h < real_of_int n"
    using low by (simp add: coordinator_send_simps)
  note neg = negotiate_no_bids [OF low2, of ?p]
  obtain res e3 where r: "negotiate_resource_allocation ?p (real_of_int n) ?e2 = (res, e3)"
    by (cases "negotiate_resource_allocation ?p (real_of_int n) ?e2")
  have res: "res = Inr None" using neg r by simp
  have hs3: "hospitals e3 = hospitals e" using neg r by (simp add: coordinator_send_simps)
  have ps3: "patients e3 = (patients e)[j := ?p]"
    using patients_negotiate [of ?p "real_of_int n" ?e2] r by (simp add: coordinator_send_simps)
  have log3: "coordinator_log e3 = coordinator_log e @ [?m]
                @ map (admission_bid_message ?e2 ?p (real_of_int n)) [0..<length (hospitals e)]
                @ [unavailable_message ?e2 ?p]"
    using neg r by (simp add: coordinator_send_simps coordinator_log_update)
  have gen: "generate_medical_needs j r e
               = (Inr (), e3\<lparr>patients := (patients e3)
                    [j := (patients e3 ! j)\<lparr>unmet_needs := medical_needs (patients e3 ! j)\<rparr>]\<rparr>)"
    using draw j r res
    by (simp add: generate_medical_needs_def Let_def split_def)
  show ?thesis
    using quotes neg0 j
    by (simp add: gen hs3 ps3 log3 coordinator_log_update admission_bid_message_types
          unavailable_message_def)
qed

theorem no_bid_leaves_demand_unmet_witness:
  "fst (generate_medical_needs 0 50
         (env_of [hospital_with 2 100 100, hospital_with 3 100 100] [PatientAgent 4 ''high'']))
     = Inr ()
   \<and> hospitals (snd (generate_medical_needs 0 50
         (env_of [hospital_with 2 100 100, hospital_with 3 100 100] [PatientAgent 4 ''high''])))
     = [hospital_with 2 100 100, hospital_with 3 100 100]
   \<and> unmet_needs (patients (snd (generate_medical_needs 0 50
         (env_of [hospital_with 2 100 100, hospital_with 3 100 100] [PatientAgent 4 ''high'']))) ! 0)
     = 150"
  using no_bid_leaves_demand_unmet
          [of 0 "env_of [hospital_with 2 100 100, hospital_with 3 100 100] [PatientAgent 4 ''high'']"
              50 150]
  by (simp add: env_of_simps hospital_with_simps PatientAgent_def severity_resource_ranges_def
        randint_def)

subsection \<open>Ranking the bids\<close>

lemma sorted_py_reverse_filter:
  "filter (\<lambda>y. f y = k) (sorted_py f True xs) = filter (\<lambda>y. f y = k) xs"
  by (simp add: sorted_py_def rev_filter [symmetric] sort_key_stable)

lemma sorted_le_last:
  fixes xs :: "real list"
  shows "sorted xs \<Longrightarrow> x \<in> set xs \<Longrightarrow> x \<le> last xs"
  by (induction xs) auto

lemma sorted_py_reverse_hd_max:
  assumes "y \<in> set xs"
  shows "f y \<le> f (hd (sorted_py f True xs))"
proof -
  let ?zs = "sort_key f (rev xs)"
  have ne: "?zs \<noteq> []" using assms by (metis empty_iff empty_set set_rev set_sort)
  have "f y \<in> set (map f ?zs)" using assms by simp
  then have "f y \<le> last (map f ?zs)"
    by (intro sorted_le_last sorted_sort_key)
  then show ?thesis using ne by (simp add: sorted_py_def hd_rev last_map)
qed

text \<open>The head of a descending stable sort: some element of the list that no element
  exceeds and that no earlier element equals in key.\<close>

lemma sorted_py_reverse_hd_first_max:
  assumes "xs \<noteq> []"
  shows "\<exists>pre post. xs = pre @ hd (sorted_py f True xs) # post
           \<and> (\<forall>y\<in>set pre. f y < f (hd (sorted_py f True xs)))
           \<and> (\<forall>y\<in>set post. f y \<le> f (hd (sorted_py f True xs)))"
proof -
  let ?ys = "sorted_py f True xs"
  let ?w = "hd ?ys"
  let ?P = "\<lambda>y. f y = f ?w"
  have ys_ne: "?ys \<noteq> []" using assms by (metis empty_iff empty_set set_sorted_py list.set_intros(1) neq_Nil_conv)
  then have w_in: "?w \<in> set xs" using hd_in_set [OF ys_ne] by (simp add: set_sorted_py)
  have max: "f y \<le> f ?w" if "y \<in> set xs" for y
    using sorted_py_reverse_hd_max [OF that] .
  have "filter ?P ?ys = ?w # filter ?P (tl ?ys)"
    using ys_ne by (cases ?ys) simp_all
  then have flt: "filter ?P xs = ?w # filter ?P (tl ?ys)"
    by (simp add: sorted_py_reverse_filter)
  from w_in have "\<exists>x\<in>set xs. ?P x" by blast
  from split_list_first_prop [OF this] obtain pre x post where
    sp: "xs = pre @ x # post" "?P x" "\<forall>y\<in>set pre. \<not> ?P y" by blast
  have sub: "set pre \<subseteq> set xs" "set post \<subseteq> set xs"
    by (subst sp(1), auto)+
  have "filter ?P xs = x # filter ?P post"
    by (subst sp(1)) (use sp(2,3) in simp)
  with flt have x: "x = ?w" by simp
  have pre: "\<forall>y\<in>set pre. f y < f ?w"
    using sp(3) max sub(1) by (auto simp: less_le)
  have post: "\<forall>y\<in>set post. f y \<le> f ?w"
    using max sub(2) by auto
  from sp(1) x have "xs = pre @ ?w # post" by simp
  with pre post show ?thesis by blast
qed

lemma decorate_total:
  "\<forall>x\<in>set xs. key x = Inr (g x) \<Longrightarrow> decorate key xs = Inr (map (\<lambda>x. (g x, x)) xs)"
  by (induction xs) simp_all

lemma evaluate_bid_fl_exact:
  "evaluate_bid_fl (\<lambda>x. x) c h b p = evaluate_bid c h b p"
  by (simp add: evaluate_bid_fl_def evaluate_bid_def capacity_score_fl_def capacity_score_def
        severity_score_fl_def severity_score_def Let_def)

text \<open>The bids reach the coordinator in the order of the hospital list.\<close>

lemma collect_bids_with_quote:
  "collect_bids is p req bids e
     = collect_bids_with (\<lambda>i. evaluate_patient_admission i p req) is bids e"
  by (induction "is" arbitrary: bids e) (simp_all split: prod.splits sum.splits option.splits)

lemma collect_bids_with_order:
  assumes "sorted_wrt (<) is"
    and "sorted_wrt (<) (map fst bids)"
    and "\<forall>b\<in>set bids. \<forall>i\<in>set is. fst b < i"
    and "fst (collect_bids_with quote is bids e) = Inr out"
  shows "sorted_wrt (<) (map fst out)"
  using assms
proof (induction "is" arbitrary: bids e)
  case Nil
  then show ?case by simp
next
  case (Cons i rest)
  obtain r e1 where ev: "quote i e = (r, e1)"
    by (cases "quote i e")
  show ?case
  proof (cases r)
    case (Inl err)
    with Cons.prems(4) ev show ?thesis by simp
  next
    case (Inr bid)
    show ?thesis
    proof (cases bid)
      case None
      with Cons.prems ev Inr show ?thesis
        by (intro Cons.IH [of bids e1]) simp_all
    next
      case (Some b)
      have "sorted_wrt (<) (map fst (bids @ [(i, b)]))"
        using Cons.prems(2,3) by (simp add: sorted_wrt_append)
      moreover have "\<forall>x\<in>set (bids @ [(i, b)]). \<forall>k\<in>set rest. fst x < k"
        using Cons.prems(1,3) by auto
      ultimately show ?thesis
        using Cons.prems(1,4) ev Inr Some
        by (intro Cons.IH [of "bids @ [(i, b)]" e1]) simp_all
    qed
  qed
qed

lemma bid_key_fl_computed_rank:
  assumes "global_strategy (resource_coordinator e) = develop_allocation_strategy"
    and "initial_resources (hospitals e ! fst b) \<noteq> 0"
  shows "bid_key_fl rnd e p b = Inr (computed_rank rnd e p b)"
  using assms
  by (simp add: bid_key_fl_def evaluate_bid_fl_def capacity_score_fl_def computed_rank_def
        Let_def develop_allocation_strategy_def)

text \<open>The capacity ratio of the rank does not exist for a hospital of capacity zero:
  there the key function raises, and with it the sort.\<close>

lemma bid_key_raises_at_zero_capacity:
  "initial_resources (hospitals e ! fst b) = 0 \<Longrightarrow> bid_key e p b = Inl ZeroDivisionError"
  by (simp add: bid_key_def evaluate_bid_def capacity_score_def Let_def)

lemma bid_key_fl_raises_at_zero_capacity:
  "initial_resources (hospitals e ! fst b) = 0 \<Longrightarrow> bid_key_fl rnd e p b = Inl ZeroDivisionError"
  by (simp add: bid_key_fl_def evaluate_bid_fl_def capacity_score_fl_def Let_def)

lemma coordinator_log_hospital_allocate_fl:
  "\<exists>new. coordinator_log (snd (HospitalAgent_allocate_resources_fl rnd i p sc e))
            = coordinator_log e @ new"
  by (simp add: HospitalAgent_allocate_resources_fl_def Let_def coordinator_send_simps
        coordinator_log_update)

text \<open>
  C4 (as amended). For a coordinator with the strategy its constructor gives it, and a
  non-empty list of bids from hospitals of nonzero capacity: the key the bids are sorted
  by is the rank \<open>0.4 * severity_score + 0.3 * min (balance / capacity) 1.0 + 0.3 * bid\<close>
  as the program computes it, every literal and every operation rounded (\<open>computed_rank\<close>,
  for any rounding \<open>rnd\<close>, that of the double among them), with the severity scores 0.2,
  0.5 and 1.0 for \<open>low\<close>, \<open>medium\<close> and \<open>high\<close>. The bid placed first by the sort, to whose
  hospital the \<open>RESOURCE_ALLOCATION\<close> message goes and on which the commit is called, has
  a computed rank that no bid exceeds, and every bid before it in the bid list has a
  strictly smaller computed rank: among bids of equal highest computed rank the earliest
  in the list wins. The list that a negotiation collects is in the order of the
  hospital list, so the earliest bid is that of the hospital registered first.
\<close>

theorem winner_is_first_of_highest_computed_rank:
  assumes strat: "global_strategy (resource_coordinator e) = develop_allocation_strategy"
    and ne: "hospital_bids \<noteq> []"
    and cap: "\<forall>b\<in>set hospital_bids. initial_resources (hospitals e ! fst b) \<noteq> 0"
  shows "(severity p = ''low'' \<longrightarrow> severity_score_fl rnd p = rnd 0.2)
       \<and> (severity p = ''medium'' \<longrightarrow> severity_score_fl rnd p = rnd 0.5)
       \<and> (severity p = ''high'' \<longrightarrow> severity_score_fl rnd p = rnd 1.0)
       \<and> (\<forall>b\<in>set hospital_bids. bid_key_fl rnd e p b = Inr (computed_rank rnd e p b))
       \<and> (\<exists>pre winner post rest.
             hospital_bids = pre @ winner # post
           \<and> (\<forall>b\<in>set pre. computed_rank rnd e p b < computed_rank rnd e p winner)
           \<and> (\<forall>b\<in>set post. computed_rank rnd e p b \<le> computed_rank rnd e p winner)
           \<and> sort_bids_fl rnd p hospital_bids e = Inr (winner # rest)
           \<and> recipient (coordinator_log
                 (snd (ResourceCoordinatorAgent_allocate_resources_fl rnd p hospital_bids e))
                   ! length (coordinator_log e))
               = Agent (unique_id (hospitals e ! fst winner))
           \<and> message_type (coordinator_log
                 (snd (ResourceCoordinatorAgent_allocate_resources_fl rnd p hospital_bids e))
                   ! length (coordinator_log e))
               = ''RESOURCE_ALLOCATION''
           \<and> ResourceCoordinatorAgent_allocate_resources_fl rnd p hospital_bids e
               = (Inr (Some (fst (HospitalAgent_allocate_resources_fl rnd (fst winner) p
                    (snd winner)
                    (coordinator_send
                       \<lparr>sender = unique_id (resource_coordinator e),
                        recipient = Agent (unique_id (hospitals e ! fst winner)),
                        content = AllocationContent (unique_id p) (medical_needs p) (snd winner),
                        message_type = ''RESOURCE_ALLOCATION''\<rparr> e)))),
                  snd (ResourceCoordinatorAgent_allocate_resources_fl rnd p hospital_bids e)))
       \<and> (fst (collect_bids_with quote [0..<length (hospitals e0)] [] e0) = Inr hospital_bids \<longrightarrow>
            sorted_wrt (<) (map fst hospital_bids))"
proof -
  have order: "fst (collect_bids_with quote [0..<length (hospitals e0)] [] e0) = Inr hospital_bids \<longrightarrow>
            sorted_wrt (<) (map fst hospital_bids)"
    using collect_bids_with_order [of "[0..<length (hospitals e0)]" "[]" quote e0 hospital_bids]
    by simp
  define keyed where "keyed = map (\<lambda>b. (computed_rank rnd e p b, b)) hospital_bids"
  define top where "top = hd (sorted_py fst True keyed)"
  define winner where "winner = snd top"
  have keys: "\<forall>b\<in>set hospital_bids. bid_key_fl rnd e p b = Inr (computed_rank rnd e p b)"
    using strat cap by (simp add: bid_key_fl_computed_rank)
  then have dec: "decorate (bid_key_fl rnd e p) hospital_bids = Inr keyed"
    unfolding keyed_def by (rule decorate_total)
  have keyed_ne: "keyed \<noteq> []" using ne by (simp add: keyed_def)
  from sorted_py_reverse_hd_first_max [OF keyed_ne, of fst]
  obtain kpre kpost where
    k: "keyed = kpre @ top # kpost"
       "\<forall>y\<in>set kpre. fst y < fst top"
       "\<forall>y\<in>set kpost. fst y \<le> fst top"
    unfolding top_def by blast
  have shape: "\<forall>y\<in>set keyed. fst y = computed_rank rnd e p (snd y)"
    by (auto simp: keyed_def)
  have in_keyed: "top \<in> set keyed" "set kpre \<subseteq> set keyed" "set kpost \<subseteq> set keyed"
    using k(1) by auto
  have w: "fst top = computed_rank rnd e p winner"
    using shape in_keyed(1) unfolding winner_def by blast
  have "map snd keyed = hospital_bids" by (simp add: keyed_def comp_def)
  then have split: "hospital_bids = map snd kpre @ winner # map snd kpost"
    unfolding winner_def using k(1) by simp
  have pre: "\<forall>b\<in>set (map snd kpre). computed_rank rnd e p b < computed_rank rnd e p winner"
    using k(2) shape in_keyed(2) w by fastforce
  have post: "\<forall>b\<in>set (map snd kpost). computed_rank rnd e p b \<le> computed_rank rnd e p winner"
    using k(3) shape in_keyed(3) w by fastforce
  have sorted_ne: "sorted_py fst True keyed \<noteq> []"
    using keyed_ne by (metis empty_iff empty_set set_sorted_py list.set_intros(1) neq_Nil_conv)
  then have sb: "sort_bids_fl rnd p hospital_bids e
                   = Inr (winner # map snd (tl (sorted_py fst True keyed)))"
    unfolding winner_def top_def
    by (cases "sorted_py fst True keyed") (simp_all add: sort_bids_fl_def dec)
  let ?am = "\<lparr>sender = unique_id (resource_coordinator e),
              recipient = Agent (unique_id (hospitals e ! fst winner)),
              content = AllocationContent (unique_id p) (medical_needs p) (snd winner),
              message_type = ''RESOURCE_ALLOCATION''\<rparr>"
  let ?r = "HospitalAgent_allocate_resources_fl rnd (fst winner) p (snd winner)
              (coordinator_send ?am e)"
  obtain new where new: "coordinator_log (snd ?r) = (coordinator_log e @ [?am]) @ new"
    using coordinator_log_hospital_allocate_fl
            [of rnd "fst winner" p "snd winner" "coordinator_send ?am e"]
    by (auto simp: coordinator_send_simps)
  have rca: "ResourceCoordinatorAgent_allocate_resources_fl rnd p hospital_bids e
          = (Inr (Some (fst ?r)),
             coordinator_send
               \<lparr>sender = unique_id (resource_coordinator e),
                recipient = Agent (unique_id p),
                content = ResultContent (fst ?r) (unique_id (hospitals (snd ?r) ! fst winner)),
                message_type = ''ALLOCATION_RESULT''\<rparr> (snd ?r))"
    using ne
    by (cases winner)
       (simp add: ResourceCoordinatorAgent_allocate_resources_fl_def sb Let_def split_def)
  have log: "coordinator_log
               (snd (ResourceCoordinatorAgent_allocate_resources_fl rnd p hospital_bids e))
               ! length (coordinator_log e) = ?am"
    by (simp add: rca coordinator_send_simps new nth_append)
  have sev: "(severity p = ''low'' \<longrightarrow> severity_score_fl rnd p = rnd 0.2)
       \<and> (severity p = ''medium'' \<longrightarrow> severity_score_fl rnd p = rnd 0.5)
       \<and> (severity p = ''high'' \<longrightarrow> severity_score_fl rnd p = rnd 1.0)"
    by (simp add: severity_score_fl_def)
  have c5: "recipient (coordinator_log
                 (snd (ResourceCoordinatorAgent_allocate_resources_fl rnd p hospital_bids e))
                   ! length (coordinator_log e))
               = Agent (unique_id (hospitals e ! fst winner))"
    and c6: "message_type (coordinator_log
                 (snd (ResourceCoordinatorAgent_allocate_resources_fl rnd p hospital_bids e))
                   ! length (coordinator_log e))
               = ''RESOURCE_ALLOCATION''"
    by (simp_all add: log)
  have c7: "ResourceCoordinatorAgent_allocate_resources_fl rnd p hospital_bids e
               = (Inr (Some (fst ?r)),
                  snd (ResourceCoordinatorAgent_allocate_resources_fl rnd p hospital_bids e))"
    by (simp add: rca)
  note all = split pre post sb c5 c6 c7
  have "\<exists>pre winner post rest.
             hospital_bids = pre @ winner # post
           \<and> (\<forall>b\<in>set pre. computed_rank rnd e p b < computed_rank rnd e p winner)
           \<and> (\<forall>b\<in>set post. computed_rank rnd e p b \<le> computed_rank rnd e p winner)
           \<and> sort_bids_fl rnd p hospital_bids e = Inr (winner # rest)
           \<and> recipient (coordinator_log
                 (snd (ResourceCoordinatorAgent_allocate_resources_fl rnd p hospital_bids e))
                   ! length (coordinator_log e))
               = Agent (unique_id (hospitals e ! fst winner))
           \<and> message_type (coordinator_log
                 (snd (ResourceCoordinatorAgent_allocate_resources_fl rnd p hospital_bids e))
                   ! length (coordinator_log e))
               = ''RESOURCE_ALLOCATION''
           \<and> ResourceCoordinatorAgent_allocate_resources_fl rnd p hospital_bids e
               = (Inr (Some (fst (HospitalAgent_allocate_resources_fl rnd (fst winner) p
                    (snd winner)
                    (coordinator_send
                       \<lparr>sender = unique_id (resource_coordinator e),
                        recipient = Agent (unique_id (hospitals e ! fst winner)),
                        content = AllocationContent (unique_id p) (medical_needs p) (snd winner),
                        message_type = ''RESOURCE_ALLOCATION''\<rparr> e)))),
                  snd (ResourceCoordinatorAgent_allocate_resources_fl rnd p hospital_bids e))"
    using all by blast
  from sev keys this order show ?thesis
    by - (elim conjE, intro conjI; assumption)
qed

text \<open>The ranks of the two bids of the example, in double arithmetic: the same double,
  0.6485165745856354.\<close>

lemma tie_rank_first: "computed_rank round_double tie_env (patient_with 4 ''low'' 15)
         (0, 2229406224377881 / 2251799813685248) = 1460329501823729 / 2251799813685248"
  unfolding computed_rank_def tie_env_def
  apply (simp add: env_of_simps hospital_with_simps patient_with_simps severity_score_fl_def double_literals)
  apply (simp add: round_double_eval)
  done

lemma tie_rank_second: "computed_rank round_double tie_env (patient_with 4 ''low'' 15)
         (1, 2229406224377881 / 2251799813685248) = 1460329501823729 / 2251799813685248"
  unfolding computed_rank_def tie_env_def
  apply (simp add: env_of_simps hospital_with_simps patient_with_simps severity_score_fl_def double_literals)
  apply (simp add: round_double_eval)
  done

lemma tie_env_simps:
  "hospitals tie_env = [hospital_with 2 1000 905,
                        hospital_with 3 1000 (7960464185098241 / 8796093022208)]"
  "coordinator_log tie_env = []"
  "global_strategy (resource_coordinator tie_env) = develop_allocation_strategy"
  by (simp_all add: tie_env_def env_of_simps)

text \<open>Both hospitals quote the same score and their computed ranks are equal: the
  allocation goes to the one registered first.\<close>

theorem winner_is_first_of_highest_computed_rank_witness:
  "recipient (coordinator_log (snd (ResourceCoordinatorAgent_allocate_resources_fl round_double
      (patient_with 4 ''low'' 15)
      [(0, 2229406224377881 / 2251799813685248), (1, 2229406224377881 / 2251799813685248)]
      tie_env)) ! 0) = Agent 2"
proof -
  let ?p = "patient_with 4 ''low'' 15"
  let ?q = "2229406224377881 / 2251799813685248 :: real"
  let ?bids = "[(0, ?q), (1, ?q)] :: (nat \<times> real) list"
  have strat: "global_strategy (resource_coordinator tie_env) = develop_allocation_strategy"
    by (simp add: tie_env_simps)
  have ne: "?bids \<noteq> []" by simp
  have cap: "\<forall>b\<in>set ?bids. initial_resources (hospitals tie_env ! fst b) \<noteq> 0"
    by (simp add: tie_env_simps hospital_with_simps)
  have tie: "computed_rank round_double tie_env ?p (0, ?q)
               = computed_rank round_double tie_env ?p (1, ?q)"
    by (simp only: tie_rank_first tie_rank_second)
  from winner_is_first_of_highest_computed_rank
         [OF strat ne cap, of ?p round_double "\<lambda>i e. (Inr None, e)" tie_env,
          THEN conjunct2, THEN conjunct2, THEN conjunct2, THEN conjunct2, THEN conjunct1]
  obtain pre winner post rest where
    w: "?bids = pre @ winner # post"
       "\<forall>b\<in>set pre. computed_rank round_double tie_env ?p b
                        < computed_rank round_double tie_env ?p winner"
       "recipient (coordinator_log
           (snd (ResourceCoordinatorAgent_allocate_resources_fl round_double ?p ?bids tie_env))
          ! length (coordinator_log tie_env)) = Agent (unique_id (hospitals tie_env ! fst winner))"
    by blast
  have "pre = []"
  proof (rule ccontr)
    assume "pre \<noteq> []"
    with w(1) have "pre = [(0, ?q)] \<and> winner = (1, ?q)"
      by (auto simp: Cons_eq_append_conv)
    with w(2) tie show False by simp
  qed
  with w(1) have "winner = (0, ?q)" by simp
  with w(3) show ?thesis
    by (simp add: tie_env_simps hospital_with_simps)
qed

lemma sort_bids_fl_tie:
  "sort_bids_fl round_double (patient_with 4 ''low'' 15)
      [(0, 2229406224377881 / 2251799813685248), (1, 2229406224377881 / 2251799813685248)]
      tie_env
     = Inr [(0, 2229406224377881 / 2251799813685248), (1, 2229406224377881 / 2251799813685248)]"
proof -
  let ?p = "patient_with 4 ''low'' 15"
  let ?q = "2229406224377881 / 2251799813685248 :: real"
  let ?k = "1460329501823729 / 2251799813685248 :: real"
  have "bid_key_fl round_double tie_env ?p (0, ?q)
          = Inr (computed_rank round_double tie_env ?p (0, ?q))"
    by (rule bid_key_fl_computed_rank) (simp_all add: tie_env_simps hospital_with_simps)
  then have k0: "bid_key_fl round_double tie_env ?p (0, ?q) = Inr ?k"
    by (simp only: tie_rank_first)
  have "bid_key_fl round_double tie_env ?p (1, ?q)
          = Inr (computed_rank round_double tie_env ?p (1, ?q))"
    by (rule bid_key_fl_computed_rank) (simp_all add: tie_env_simps hospital_with_simps)
  then have k1: "bid_key_fl round_double tie_env ?p (1, ?q) = Inr ?k"
    by (simp only: tie_rank_second)
  have "decorate (bid_key_fl round_double tie_env ?p) [(0, ?q), (1, ?q)]
          = Inr [(?k, (0, ?q)), (?k, (1, ?q))]"
    by (simp only: decorate.simps k0 k1 sum.case)
  then show ?thesis
    by (simp add: sort_bids_fl_def sorted_py_def)
qed

text \<open>C4 as stated fails twice. In the example the program ranks the first bid first,
  though the rank of the second bid in exact arithmetic is strictly higher; and a bid
  from a hospital of capacity zero makes the ranking raise.\<close>

theorem exact_rank_is_not_the_winner:
  "sort_bids_fl round_double (patient_with 4 ''low'' 15)
      [(0, 2229406224377881 / 2251799813685248), (1, 2229406224377881 / 2251799813685248)]
      tie_env
     = Inr [(0, 2229406224377881 / 2251799813685248), (1, 2229406224377881 / 2251799813685248)]
   \<and> spec_rank tie_env (patient_with 4 ''low'' 15) (0, 2229406224377881 / 2251799813685248)
       < spec_rank tie_env (patient_with 4 ''low'' 15) (1, 2229406224377881 / 2251799813685248)
   \<and> fst (ResourceCoordinatorAgent_allocate_resources_fl round_double
            (patient_with 4 ''low'' 15) [(0, 3 / 4)] (env_of [hospital_with 2 0 0] []))
       = Inl ZeroDivisionError"
proof -
  have "spec_rank tie_env (patient_with 4 ''low'' 15) (0, 2229406224377881 / 2251799813685248)
       < spec_rank tie_env (patient_with 4 ''low'' 15) (1, 2229406224377881 / 2251799813685248)"
    by (simp add: spec_rank_def tie_env_simps hospital_with_simps)
  moreover have "fst (ResourceCoordinatorAgent_allocate_resources_fl round_double
            (patient_with 4 ''low'' 15) [(0, 3 / 4)] (env_of [hospital_with 2 0 0] []))
       = Inl ZeroDivisionError"
    by (simp add: ResourceCoordinatorAgent_allocate_resources_fl_def sort_bids_fl_def Let_def
          bid_key_fl_raises_at_zero_capacity env_of_simps hospital_with_simps)
  ultimately show ?thesis using sort_bids_fl_tie by simp
qed

subsection \<open>Reachable states: balances within the cap, and no exception\<close>

lemma within_cap_nth:
  "within_cap e \<Longrightarrow> i < length (hospitals e) \<Longrightarrow>
   0 \<le> current_resources (hospitals e ! i)
   \<and> current_resources (hospitals e ! i) \<le> initial_resources (hospitals e ! i) * 1.5"
  by (simp add: within_cap_def list_all_length)

lemma within_cap_frame:
  "within_cap (coordinator_send m e) = within_cap e"
  "within_cap (e\<lparr>patients := ps\<rparr>) = within_cap e"
  "within_cap (e\<lparr>total_unmet_needs := u\<rparr>) = within_cap e"
  "within_cap (e\<lparr>resource_allocation_efficiency := x\<rparr>) = within_cap e"
  by (simp_all add: within_cap_def coordinator_send_simps)

lemma within_cap_evaluate:
  "within_cap (snd (evaluate_patient_admission i p req e)) = within_cap e"
  by (simp add: snd_evaluate_patient_admission within_cap_frame)

lemma within_cap_hospital_allocate:
  assumes "within_cap e" and "0 \<le> medical_needs p"
  shows "within_cap (snd (HospitalAgent_allocate_resources i p sc e))"
proof (cases "real_of_int (medical_needs p) \<le> current_resources (hospitals e ! i)")
  case True
  have "list_all (\<lambda>h. 0 \<le> current_resources h \<and> current_resources h \<le> initial_resources h * 1.5)
          ((hospitals e)[i := (hospitals e ! i)\<lparr>current_resources :=
              current_resources (hospitals e ! i) - real_of_int (medical_needs p)\<rparr>])"
    using assms True within_cap_nth [OF assms(1), of i]
    by (intro list_all_update) (simp_all add: within_cap_def)
  with True show ?thesis
    by (simp add: HospitalAgent_allocate_resources_def Let_def coordinator_send_simps
          within_cap_def)
next
  case False
  with assms show ?thesis
    by (simp add: HospitalAgent_allocate_resources_def Let_def)
qed

lemma within_cap_process:
  assumes "within_cap e"
  shows "within_cap (process_resources i e)"
proof -
  have "list_all (\<lambda>h. 0 \<le> current_resources h \<and> current_resources h \<le> initial_resources h * 1.5)
          ((hospitals e)[i := (hospitals e ! i)\<lparr>current_resources :=
              min (current_resources (hospitals e ! i) * 1.1)
                  (initial_resources (hospitals e ! i) * 1.5)\<rparr>])"
    using assms within_cap_nth [OF assms, of i]
    by (intro list_all_update) (auto simp add: within_cap_def)
  then show ?thesis
    by (simp add: process_resources_def Let_def within_cap_def)
qed

lemma within_cap_transfer:
  assumes "within_cap e"
  shows "within_cap (transfer s t e)"
proof -
  let ?P = "\<lambda>h. 0 \<le> current_resources h \<and> current_resources h \<le> initial_resources h * 1.5"
  define hs where "hs = hospitals e"
  define amt where "amt = min (current_resources (hs ! s) * 0.1)
                             (initial_resources (hs ! t) * 0.2 - current_resources (hs ! t))"
  define hs1 where
    "hs1 = hs[s := (hs ! s)\<lparr>current_resources := current_resources (hs ! s) - amt\<rparr>]"
  define hs2 where
    "hs2 = hs1[t := (hs1 ! t)\<lparr>current_resources := current_resources (hs1 ! t) + amt\<rparr>]"
  have hs: "list_all ?P hs" using assms by (simp add: within_cap_def hs_def)
  have eq: "hospitals (transfer s t e) = (if amt > 0 then hs2 else hs)"
    by (simp add: transfer_def Let_def coordinator_send_simps hs_def amt_def hs1_def hs2_def)
  show ?thesis
  proof (cases "amt > 0")
    case False
    with eq hs show ?thesis by (simp add: within_cap_def)
  next
    case True
    have a1: "amt \<le> current_resources (hs ! s) * 0.1" unfolding amt_def by (rule min.cobounded1)
    have a2: "amt \<le> initial_resources (hs ! t) * 0.2 - current_resources (hs ! t)"
      unfolding amt_def by (rule min.cobounded2)
    have 1: "list_all ?P hs1"
      unfolding hs1_def using hs a1 True
      by (intro list_all_update) (auto simp: list_all_length)
    have 2: "list_all ?P hs2"
      unfolding hs2_def
    proof (intro list_all_update 1)
      assume t: "t < length hs1"
      show "?P ((hs1 ! t)\<lparr>current_resources := current_resources (hs1 ! t) + amt\<rparr>)"
      proof (cases "t = s")
        case True
        with t have "hs1 ! t = (hs ! s)\<lparr>current_resources := current_resources (hs ! s) - amt\<rparr>"
          by (simp add: hs1_def)
        moreover have "?P (hs ! s)" using hs t True by (simp add: list_all_length hs1_def)
        ultimately show ?thesis by simp
      next
        case False
        with t have same: "hs1 ! t = hs ! t" by (simp add: hs1_def)
        have "?P (hs ! t)" using hs t by (simp add: list_all_length hs1_def)
        with a2 True show ?thesis by (simp add: same)
      qed
    qed
    with eq True show ?thesis by (simp add: within_cap_def)
  qed
qed

lemma within_cap_transfer_targets:
  "within_cap e \<Longrightarrow> within_cap (transfer_targets s low e)"
  by (induction low arbitrary: e) (simp_all add: within_cap_transfer)

lemma within_cap_transfer_sources:
  "within_cap e \<Longrightarrow> within_cap (transfer_sources high low e)"
  by (induction high arbitrary: e) (simp_all add: within_cap_transfer_targets)

lemma within_cap_coordinate:
  "within_cap e \<Longrightarrow> within_cap (coordinate_global_resources e)"
  by (simp add: coordinate_global_resources_def within_cap_transfer_sources)

lemma within_cap_process_all:
  "within_cap e \<Longrightarrow> within_cap (process_all is e)"
  by (induction "is" arbitrary: e) (simp_all add: within_cap_process)

lemma evaluate_returns:
  assumes "0 < req"
  shows "\<exists>r. fst (evaluate_patient_admission i p req e) = Inr r
           \<and> (r \<noteq> None \<longrightarrow> req \<le> current_resources (hospitals e ! i))"
proof (cases "current_resources (hospitals e ! i) < req")
  case True
  then show ?thesis by (simp add: evaluate_patient_admission_def Let_def)
next
  case False
  with assms have "current_resources (hospitals e ! i) \<noteq> 0" by auto
  with False show ?thesis
    by (simp add: evaluate_patient_admission_def calculate_admission_score_def Let_def)
qed

lemma hospitals_collect_bids:
  "hospitals (snd (collect_bids is p req bids e)) = hospitals e"
proof (induction "is" arbitrary: bids e)
  case Nil
  show ?case by simp
next
  case (Cons i rest)
  obtain r e1 where ev: "evaluate_patient_admission i p req e = (r, e1)"
    by (cases "evaluate_patient_admission i p req e")
  have "hospitals e1 = hospitals e"
    using snd_evaluate_patient_admission [of i p req e] ev by (simp add: coordinator_send_simps)
  then show ?case
    using ev Cons by (simp split: sum.splits option.splits)
qed

lemma collect_bids_returns:
  assumes "0 < req"
    and "\<forall>b\<in>set bids. fst b < length (hospitals e) \<and> req \<le> current_resources (hospitals e ! fst b)"
    and "\<forall>i\<in>set is. i < length (hospitals e)"
  shows "\<exists>out. fst (collect_bids is p req bids e) = Inr out
           \<and> (\<forall>b\<in>set out. fst b < length (hospitals e)
                           \<and> req \<le> current_resources (hospitals e ! fst b))"
  using assms(2,3)
proof (induction "is" arbitrary: bids e)
  case Nil
  then show ?case by simp
next
  case (Cons i rest)
  obtain r e1 where ev: "evaluate_patient_admission i p req e = (r, e1)"
    by (cases "evaluate_patient_admission i p req e")
  have hs: "hospitals e1 = hospitals e"
    using snd_evaluate_patient_admission [of i p req e] ev by (simp add: coordinator_send_simps)
  from evaluate_returns [OF assms(1), of i p e] ev obtain bid where
    r: "r = Inr bid" "bid \<noteq> None \<longrightarrow> req \<le> current_resources (hospitals e ! i)"
    by auto
  show ?case
  proof (cases bid)
    case None
    have "\<exists>out. fst (collect_bids rest p req bids e1) = Inr out
           \<and> (\<forall>b\<in>set out. fst b < length (hospitals e1)
                           \<and> req \<le> current_resources (hospitals e1 ! fst b))"
      using Cons.prems by (intro Cons.IH) (simp_all add: hs)
    then show ?thesis using ev r None by (simp add: hs)
  next
    case (Some b)
    have "\<exists>out. fst (collect_bids rest p req (bids @ [(i, b)]) e1) = Inr out
           \<and> (\<forall>b\<in>set out. fst b < length (hospitals e1)
                           \<and> req \<le> current_resources (hospitals e1 ! fst b))"
      using Cons.prems r(2) Some by (intro Cons.IH) (auto simp add: hs)
    then show ?thesis using ev r Some by (simp add: hs)
  qed
qed

lemma decorate_returns:
  "\<forall>x\<in>set xs. \<exists>k. f x = Inr k \<Longrightarrow> \<exists>kxs. decorate f xs = Inr kxs \<and> length kxs = length xs"
  by (induction xs) auto

lemma coordinator_allocate_returns:
  assumes "within_cap e"
    and "\<forall>b\<in>set bids. fst b < length (hospitals e) \<and> 0 < current_resources (hospitals e ! fst b)"
  shows "\<exists>r. fst (ResourceCoordinatorAgent_allocate_resources p bids e) = Inr r"
proof (cases "bids = []")
  case True
  then show ?thesis by (simp add: ResourceCoordinatorAgent_allocate_resources_def Let_def)
next
  case False
  have "\<forall>b\<in>set bids. \<exists>k. bid_key e p b = Inr k"
  proof
    fix b assume b: "b \<in> set bids"
    with assms(2) have "fst b < length (hospitals e)" "0 < current_resources (hospitals e ! fst b)"
      by auto
    with within_cap_nth [OF assms(1), of "fst b"]
    have "initial_resources (hospitals e ! fst b) \<noteq> 0" by auto
    then show "\<exists>k. bid_key e p b = Inr k"
      by (simp add: bid_key_def evaluate_bid_def capacity_score_def Let_def)
  qed
  from decorate_returns [OF this] obtain keyed where
    keyed: "decorate (bid_key e p) bids = Inr keyed" "length keyed = length bids" by blast
  with False have "sorted_py fst True keyed \<noteq> []"
    by (metis length_0_conv empty_iff empty_set set_sorted_py list.set_intros(1) neq_Nil_conv)
  then obtain w rest where "map snd (sorted_py fst True keyed) = w # rest"
    by (cases "sorted_py fst True keyed") auto
  then show ?thesis
    using False keyed(1)
    by (cases w) (simp add: ResourceCoordinatorAgent_allocate_resources_def Let_def
        sort_bids_def split_def)
qed

lemma negotiate_returns:
  assumes "within_cap e" and "0 < req"
  shows "\<exists>r. fst (negotiate_resource_allocation p req e) = Inr r"
proof -
  let ?is = "[0..<length (hospitals e)]"
  obtain res e1 where cb: "collect_bids ?is p req [] e = (res, e1)"
    by (cases "collect_bids ?is p req [] e")
  have hs: "hospitals e1 = hospitals e"
    using hospitals_collect_bids [of ?is p req "[]" e] cb by simp
  from collect_bids_returns [OF assms(2), of "[]" e ?is p] cb obtain out where
    out: "res = Inr out"
      "\<forall>b\<in>set out. fst b < length (hospitals e) \<and> req \<le> current_resources (hospitals e ! fst b)"
    by auto
  have wc: "within_cap e1" using assms(1) hs by (simp add: within_cap_def)
  have "\<forall>b\<in>set out. fst b < length (hospitals e1) \<and> 0 < current_resources (hospitals e1 ! fst b)"
    using out(2) assms(2) by (auto simp: hs)
  from coordinator_allocate_returns [OF wc this, of p] show ?thesis
    by (simp add: negotiate_resource_allocation_def cb out(1))
qed

lemma within_cap_coordinator_allocate:
  "within_cap e \<Longrightarrow> 0 \<le> medical_needs p \<Longrightarrow>
   within_cap (snd (ResourceCoordinatorAgent_allocate_resources p bids e))"
  by (simp add: ResourceCoordinatorAgent_allocate_resources_def Let_def split_def
        within_cap_frame within_cap_hospital_allocate split: sum.splits list.splits)

lemma within_cap_negotiate:
  assumes "within_cap e" and "0 \<le> medical_needs p"
  shows "within_cap (snd (negotiate_resource_allocation p req e))"
proof -
  let ?is = "[0..<length (hospitals e)]"
  obtain res e1 where cb: "collect_bids ?is p req [] e = (res, e1)"
    by (cases "collect_bids ?is p req [] e")
  have "hospitals e1 = hospitals e"
    using hospitals_collect_bids [of ?is p req "[]" e] cb by simp
  then have "within_cap e1" using assms(1) by (simp add: within_cap_def)
  then show ?thesis
    using cb assms(2)
    by (simp add: negotiate_resource_allocation_def within_cap_coordinator_allocate
          split: sum.splits)
qed

lemma randint_range:
  "\<exists>n. randint (fst (severity_resource_ranges sev)) (snd (severity_resource_ranges sev)) r = Inr n
       \<and> 5 \<le> n"
proof -
  have "fst (severity_resource_ranges sev) \<le> snd (severity_resource_ranges sev)"
    by (simp add: severity_resource_ranges_def)
  from randint_bounds [OF this, of r] obtain n where
    "randint (fst (severity_resource_ranges sev)) (snd (severity_resource_ranges sev)) r = Inr n"
    "fst (severity_resource_ranges sev) \<le> n" by blast
  moreover have "5 \<le> fst (severity_resource_ranges sev)"
    by (simp add: severity_resource_ranges_def)
  ultimately show ?thesis by auto
qed

lemma generate_returns:
  assumes "within_cap e" and j: "j < length (patients e)"
  shows "fst (generate_medical_needs j r e) = Inr ()
       \<and> within_cap (snd (generate_medical_needs j r e))
       \<and> length (patients (snd (generate_medical_needs j r e))) = length (patients e)"
proof -
  let ?sev = "severity (patients e ! j)"
  from randint_range [of ?sev r] obtain n where
    n: "randint (fst (severity_resource_ranges ?sev)) (snd (severity_resource_ranges ?sev)) r = Inr n"
       "5 \<le> n" by blast
  let ?self = "(patients e ! j)\<lparr>medical_needs := n\<rparr>"
  let ?e1 = "e\<lparr>patients := (patients e)[j := ?self]\<rparr>"
  let ?m = "\<lparr>sender = unique_id ?self,
             recipient = Agent (unique_id (resource_coordinator ?e1)),
             content = MedicalNeedsContent (medical_needs ?self) (severity ?self),
             message_type = ''MEDICAL_NEEDS''\<rparr>"
  let ?e2 = "coordinator_send ?m ?e1"
  have wc2: "within_cap ?e2" using assms(1) by (simp add: within_cap_frame)
  have pos: "0 < real_of_int n" using n(2) by simp
  have nn: "0 \<le> medical_needs ?self" using n(2) by simp
  obtain res e3 where ng: "negotiate_resource_allocation ?self (real_of_int n) ?e2 = (res, e3)"
    by (cases "negotiate_resource_allocation ?self (real_of_int n) ?e2")
  from negotiate_returns [OF wc2 pos, of ?self] ng obtain ar where ar: "res = Inr ar" by auto
  have wc3: "within_cap e3"
    using within_cap_negotiate [OF wc2 nn, of "real_of_int n"] ng by simp
  have ps3: "patients e3 = (patients e)[j := ?self]"
    using patients_negotiate [of ?self "real_of_int n" ?e2] ng by (simp add: coordinator_send_simps)
  have "generate_medical_needs j r e
          = (Inr (), e3\<lparr>patients := (patients e3)
               [j := (patients e3 ! j)\<lparr>unmet_needs :=
                  (if ar = Some True then 0 else medical_needs (patients e3 ! j))\<rparr>]\<rparr>)"
    using n(1) j ng ar by (simp add: generate_medical_needs_def Let_def split_def)
  then show ?thesis using wc3 ps3 by (simp add: within_cap_frame)
qed

lemma generate_all_returns:
  assumes "within_cap e" and "\<forall>j\<in>set js. j < length (patients e)"
  shows "fst (generate_all js rnd e) = Inr ()
       \<and> within_cap (snd (generate_all js rnd e))"
  using assms
proof (induction js arbitrary: e)
  case Nil
  then show ?case by simp
next
  case (Cons j rest)
  obtain r e1 where g: "generate_medical_needs j (rnd j) e = (r, e1)"
    by (cases "generate_medical_needs j (rnd j) e")
  have j: "j < length (patients e)" using Cons.prems(2) by simp
  from generate_returns [OF Cons.prems(1) j, of "rnd j"] g
  have 1: "r = Inr ()" "within_cap e1" "length (patients e1) = length (patients e)" by simp_all
  have "\<forall>k\<in>set rest. k < length (patients e1)" using Cons.prems(2) 1(3) by simp
  from Cons.IH [OF 1(2) this] show ?case using g 1(1) by simp
qed

lemma total_balance_nonneg:
  "within_cap e \<Longrightarrow> 0 \<le> total_balance e"
  unfolding within_cap_def total_balance_def list_all_iff
  by (intro sum_list_nonneg) auto

lemma metrics_returns:
  assumes "within_cap e"
  shows "fst (update_performance_metrics e) = Inr ()
       \<and> within_cap (snd (update_performance_metrics e))"
proof -
  have "0 \<le> sum_list (map current_resources (hospitals e))"
    using total_balance_nonneg [OF assms] by (simp add: total_balance_def)
  then have "sum_list (map current_resources (hospitals e)) + 1 \<noteq> 0" by linarith
  then show ?thesis
    using assms by (simp add: update_performance_metrics_def Let_def within_cap_frame)
qed

lemma step_returns:
  assumes "within_cap e"
  shows "fst (step rnd e) = Inr () \<and> within_cap (snd (step rnd e))"
proof -
  let ?js = "[0..<length (patients e)]"
  obtain r e1 where g: "generate_all ?js rnd e = (r, e1)"
    by (cases "generate_all ?js rnd e")
  have "\<forall>j\<in>set ?js. j < length (patients e)" by simp
  from generate_all_returns [OF assms this, of rnd] g
  have 1: "r = Inr ()" "within_cap e1" by simp_all
  let ?e3 = "coordinate_global_resources (process_all [0..<length (hospitals e1)] e1)"
  have "within_cap ?e3"
    using 1(2) by (intro within_cap_coordinate within_cap_process_all)
  from metrics_returns [OF this] show ?thesis
    using g 1(1) by (simp add: step_def Let_def)
qed

lemma run_steps_returns:
  "within_cap e \<Longrightarrow>
   fst (run_steps n rnd e) = Inr () \<and> within_cap (snd (run_steps n rnd e))"
proof (induction n arbitrary: rnd e)
  case 0
  then show ?case by simp
next
  case (Suc n)
  obtain r e1 where g: "step (rnd 0) e = (r, e1)"
    by (cases "step (rnd 0) e")
  from step_returns [OF Suc.prems, of "rnd 0"] g have 1: "r = Inr ()" "within_cap e1"
    by simp_all
  from Suc.IH [OF 1(2)] show ?case using g 1(1) by simp
qed

lemma within_cap_constructed:
  "0 \<le> init \<Longrightarrow> within_cap (ResourceAllocationEnvironment nh np init spec_rnd sev_rnd)"
  by (simp add: ResourceAllocationEnvironment_def within_cap_def list_all_iff HospitalAgent_def)

text \<open>From construction with the default capacity, no step of a run raises, and every
  balance stays between 0 and the cap. In particular no quote meets a zero balance with
  a demand that is not positive, no ranked bid comes from a hospital of capacity zero,
  and replenishment never finds a balance above the cap.\<close>

lemma simulation_never_raises:
  "fst (run_healthcare_simulation nh np n spec_rnd sev_rnd rnd) = Inr ()
   \<and> within_cap (snd (run_healthcare_simulation nh np n spec_rnd sev_rnd rnd))"
  unfolding run_healthcare_simulation_def
  by (intro run_steps_returns within_cap_constructed) simp

end
